theory Spec2Isabelle
  imports Main "HOL-Library.Word"
begin

unbundle bit_operations_syntax

section \<open>JavaScript data\<close>

text \<open>
  A JavaScript string is a sequence of UTF-16 code units, each a number below \<open>2 ^ 16\<close>
  (\<open>wf_string\<close>); \<open>length\<close> is its \<open>.length\<close>. No operation of the program does
  arithmetic that could leave that range. A \<open>Buffer\<close> is a sequence of bytes. \<open>js\<close> writes
  an ASCII literal of the source.
\<close>

type_synonym jsstring = "nat list"
type_synonym byte = "8 word"

definition wf_string :: "jsstring \<Rightarrow> bool" where
  "wf_string s \<longleftrightarrow> (\<forall>c\<in>set s. c < 2 ^ 16)"

definition js :: "string \<Rightarrow> jsstring" where
  "js s = map of_char s"

text \<open>
  Everything the code can throw. \<open>ExternalError\<close> stands for a rejection coming from one of
  the libraries the code awaits (image library, inference client, browser automation, request
  body readers).
\<close>

datatype error = TypeError | SyntaxError | URIError | ExternalError

text \<open>
  A number is an IEEE double. Only its truthiness is decided by the code itself, so the
  falsy values are constructors of their own and the non-zero doubles (infinities included)
  are left as a type parameter; conversions between text and doubles belong to the runtime.
\<close>

datatype 'd number = NaN | PosZero | NegZero | Nonzero 'd

text \<open>A number that has crossed from the page to the handler inside the result of
  \<open>page.evaluate\<close>: the transfer by value keeps it or makes it \<open>null\<close>.\<close>

datatype 'd transferred = IsNull | IsNumber "'d number"

datatype 'd jsvalue =
    Undefined
  | Null
  | Bool bool
  | Num "'d number"
  | Str jsstring
  | Arr "'d jsvalue list"
  | Obj "(jsstring \<times> 'd jsvalue) list"

text \<open>The calls a handler makes, in order: the functions of the repository it enters and
  the external operations it awaits.\<close>

datatype event =
    CompressImage
  | AnalyzeImage
  | GenerateGiftRecommendations
  | ScrapeInstagramProfile
  | AnalyzeProfile
  | SharpToBuffer
  | GroqCreate
  | BrowserLaunch
  | PageGoto jsstring
  | WaitForSelector
  | BrowserClose

subsection \<open>The inference client and the scraped page\<close>

record chat_request =
  model :: jsstring
  messages :: "(jsstring \<times> jsstring) list"
  temperature :: jsstring
  max_tokens :: nat
  top_p :: "jsstring option"

datatype message = Message (content: "jsstring option")
datatype choice = Choice (message: "message option")
datatype chat_completion = Completion (choices: "choice list")

text \<open>What the DOM queries of the scraper find on a loaded page: the \<open>href\<close>s of
  \<open>article a\<close> in document order, and the first match (if any) of the other selectors.\<close>

record page =
  article_a_hrefs :: "jsstring list"
  h1_textContent :: "jsstring option"
  article_img_src :: "jsstring option"
  section_span_textContent :: "jsstring option"
  bio_span_textContent :: "jsstring option"

text \<open>
  The environment of a request: the runtime's conversions and the external services.
  \<open>unicode_lower s i\<close> is what \<open>toLowerCase\<close> puts in place of the non-ASCII code unit at
  index \<open>i\<close> of \<open>s\<close>; \<open>page_goto n url\<close> is what the \<open>n\<close>-th navigation of the browser
  session loads; \<open>evaluate_number\<close> is how a number other than \<open>NaN\<close>, nested in the result
  of \<open>page.evaluate\<close>, arrives in the handler.
\<close>

record 'd env =
  JSON_parse :: "jsstring \<Rightarrow> error + 'd jsvalue"
  parseFloat :: "jsstring \<Rightarrow> 'd number"
  parseInt :: "jsstring \<Rightarrow> 'd number"
  StringToNumber :: "jsstring \<Rightarrow> 'd number"
  NumberToString :: "'d \<Rightarrow> jsstring"
  unicode_lower :: "jsstring \<Rightarrow> nat \<Rightarrow> jsstring"
  sharp_toBuffer :: "byte list \<Rightarrow> error + byte list"
  groq_create :: "chat_request \<Rightarrow> error + chat_completion"
  puppeteer_launch :: "error option"
  page_goto :: "nat \<Rightarrow> jsstring \<Rightarrow> error + page"
  evaluate_number :: "'d number \<Rightarrow> 'd transferred"

section \<open>Strings and values of the runtime\<close>

text \<open>The regular-expression class \<open>\s\<close>, which is also what \<open>trim()\<close> removes: the white
  space and line terminator code units of ECMAScript.\<close>

definition is_space :: "nat \<Rightarrow> bool" where
  "is_space c \<longleftrightarrow>
     c \<in> {0x09, 0x0A, 0x0B, 0x0C, 0x0D, 0x20, 0xA0, 0x1680, 0x2028, 0x2029, 0x202F,
          0x205F, 0x3000, 0xFEFF}
     \<or> (0x2000 \<le> c \<and> c \<le> 0x200A)"

text \<open>The class \<open>\w\<close> (no \<open>u\<close> or \<open>i\<close> flag): \<open>[A-Za-z0-9_]\<close>.\<close>

definition is_word :: "nat \<Rightarrow> bool" where
  "is_word c \<longleftrightarrow>
     (0x41 \<le> c \<and> c \<le> 0x5A) \<or> (0x61 \<le> c \<and> c \<le> 0x7A) \<or> (0x30 \<le> c \<and> c \<le> 0x39) \<or> c = 0x5F"

definition trim :: "jsstring \<Rightarrow> jsstring" where
  "trim s = rev (dropWhile is_space (rev (dropWhile is_space s)))"

text \<open>
  \<open>toLowerCase\<close>: an ASCII code unit is mapped on its own (\<open>A\<close>-\<open>Z\<close> to \<open>a\<close>-\<open>z\<close>, anything
  else unchanged); what a non-ASCII code unit becomes is the Unicode case mapping of the
  environment.
\<close>

definition ascii_lower :: "nat \<Rightarrow> nat" where
  "ascii_lower c = (if 0x41 \<le> c \<and> c \<le> 0x5A then c + 0x20 else c)"

definition toLowerCase :: "'d env \<Rightarrow> jsstring \<Rightarrow> jsstring" where
  "toLowerCase env s =
     concat (map (\<lambda>i. if s ! i < 0x80 then [ascii_lower (s ! i)] else unicode_lower env s i)
                 [0..<length s])"

text \<open>
  \<open>String.prototype.replace\<close> and \<open>match\<close> with a global pattern: scan from the left; where
  the pattern matches, \<open>m\<close> gives the length of the match (never 0 for the patterns of the
  source), the match is consumed and the scan goes on behind it; elsewhere the scan moves on
  by one code unit.
\<close>

fun replace_all :: "(jsstring \<Rightarrow> nat option) \<Rightarrow> jsstring \<Rightarrow> jsstring \<Rightarrow> jsstring" where
  "replace_all m r [] = []"
| "replace_all m r (c # cs) =
     (case m (c # cs) of
        Some n \<Rightarrow> r @ replace_all m r (drop (n - 1) cs)
      | None \<Rightarrow> c # replace_all m r cs)"

fun match_all :: "(jsstring \<Rightarrow> nat option) \<Rightarrow> jsstring \<Rightarrow> jsstring list" where
  "match_all m [] = []"
| "match_all m (c # cs) =
     (case m (c # cs) of
        Some n \<Rightarrow> take n (c # cs) # match_all m (drop (n - 1) cs)
      | None \<Rightarrow> match_all m cs)"

text \<open>The patterns of the source, each as the match it finds at the start of a string.\<close>

definition m_class :: "(nat \<Rightarrow> bool) \<Rightarrow> jsstring \<Rightarrow> nat option" where
  \<comment> \<open>a single character class, such as \<open>/[$,]/\<close>\<close>
  "m_class P s = (case s of [] \<Rightarrow> None | c # cs \<Rightarrow> if P c then Some 1 else None)"

definition m_comma_brace :: "jsstring \<Rightarrow> nat option" where
  \<comment> \<open>\<open>/,\s*}/\<close>\<close>
  "m_comma_brace s =
     (case s of
        [] \<Rightarrow> None
      | c # cs \<Rightarrow>
          if c = 0x2C then
            (case dropWhile is_space cs of
               [] \<Rightarrow> None
             | d # ds \<Rightarrow> if d = 0x7D then Some (length (takeWhile is_space cs) + 2) else None)
          else None)"

definition m_spaces :: "jsstring \<Rightarrow> nat option" where
  \<comment> \<open>\<open>/\s+/\<close>\<close>
  "m_spaces s = (if takeWhile is_space s = [] then None else Some (length (takeWhile is_space s)))"

definition m_around :: "nat \<Rightarrow> jsstring \<Rightarrow> nat option" where
  \<comment> \<open>\<open>/\s*:\s*/\<close> and \<open>/\s*,\s*/\<close>\<close>
  "m_around p s =
     (case dropWhile is_space s of
        [] \<Rightarrow> None
      | d # ds \<Rightarrow>
          if d = p then Some (length (takeWhile is_space s) + 1 + length (takeWhile is_space ds))
          else None)"

definition m_its :: "jsstring \<Rightarrow> nat option" where
  \<comment> \<open>\<open>/it[']s/i\<close>: ignoring case, \<open>i\<close> and \<open>t\<close> and \<open>s\<close> match their capitals too\<close>
  "m_its s =
     (case s of
        a # b # c # d # rest \<Rightarrow>
          if (a = 0x69 \<or> a = 0x49) \<and> (b = 0x74 \<or> b = 0x54) \<and> c = 0x27 \<and> (d = 0x73 \<or> d = 0x53)
          then Some 4 else None
      | _ \<Rightarrow> None)"

definition m_then_space :: "jsstring \<Rightarrow> jsstring \<Rightarrow> nat option" where
  \<comment> \<open>a literal followed by \<open>\s\<close>, such as \<open>/[']s\s/\<close>\<close>
  "m_then_space lit s =
     (if take (length lit) s = lit
         \<and> (case drop (length lit) s of [] \<Rightarrow> False | c # cs \<Rightarrow> is_space c)
      then Some (length lit + 1) else None)"

definition m_tag :: "nat \<Rightarrow> jsstring \<Rightarrow> nat option" where
  \<comment> \<open>\<open>/#[\w]+/\<close> and \<open>/@[\w]+/\<close>\<close>
  "m_tag p s =
     (case s of
        [] \<Rightarrow> None
      | c # cs \<Rightarrow>
          if c = p \<and> takeWhile is_word cs \<noteq> [] then Some (1 + length (takeWhile is_word cs))
          else None)"

text \<open>\<open>split(/\W+/)\<close>: the pieces between the maximal runs of non-word code units; a run at
  the start or the end leaves an empty piece there, and the empty string gives one empty
  piece.\<close>

function split_nonword :: "jsstring \<Rightarrow> jsstring \<Rightarrow> jsstring list" where
  "split_nonword cur [] = [cur]"
| "split_nonword cur (c # cs) =
     (if is_word c then split_nonword (cur @ [c]) cs
      else cur # split_nonword [] (dropWhile (\<lambda>x. \<not> is_word x) cs))"
  by pat_completeness auto
termination
  by (relation "measure (\<lambda>(cur, s). length s)") (auto simp: length_dropWhile_le less_Suc_eq_le)

text \<open>Truthiness, \<open>a || b\<close>, and reading one of the properties the source reads
  (\<open>name\<close>, \<open>description\<close>, \<open>price\<close>, \<open>match_reason\<close>, \<open>username\<close>): none of them is
  inherited from a prototype, so a primitive or an array has it \<open>undefined\<close>, an object has
  its own entry, and \<open>null\<close> throws.\<close>

definition num_truthy :: "'d number \<Rightarrow> bool" where
  "num_truthy n = (case n of Nonzero d \<Rightarrow> True | _ \<Rightarrow> False)"

fun truthy :: "'d jsvalue \<Rightarrow> bool" where
  "truthy Undefined = False"
| "truthy Null = False"
| "truthy (Bool b) = b"
| "truthy (Num n) = num_truthy n"
| "truthy (Str s) = (s \<noteq> [])"
| "truthy (Arr xs) = True"
| "truthy (Obj kvs) = True"

definition or_else :: "'d jsvalue \<Rightarrow> 'd jsvalue \<Rightarrow> 'd jsvalue" where
  "or_else a b = (if truthy a then a else b)"

definition bind_e :: "error + 'a \<Rightarrow> ('a \<Rightarrow> error + 'b) \<Rightarrow> error + 'b" where
  "bind_e m f = (case m of Inl e \<Rightarrow> Inl e | Inr x \<Rightarrow> f x)"

fun get_prop :: "'d jsvalue \<Rightarrow> jsstring \<Rightarrow> error + 'd jsvalue" where
  "get_prop Undefined k = Inl TypeError"
| "get_prop Null k = Inl TypeError"
| "get_prop (Obj kvs) k = (case map_of kvs k of Some v \<Rightarrow> Inr v | None \<Rightarrow> Inr Undefined)"
| "get_prop v k = Inr Undefined"

text \<open>
  \<open>String(v)\<close> and the string conversion of a template literal. An array is joined with
  commas, \<open>null\<close> and \<open>undefined\<close> elements giving the empty string; an object is
  \<open>[object Object]\<close> unless it has an own \<open>toString\<close> entry, which (never being callable in
  parsed JSON) leaves the conversion without a primitive and throws.
\<close>

definition num_str :: "'d env \<Rightarrow> 'd number \<Rightarrow> jsstring" where
  "num_str env n =
     (case n of NaN \<Rightarrow> js ''NaN'' | PosZero \<Rightarrow> js ''0'' | NegZero \<Rightarrow> js ''0''
      | Nonzero d \<Rightarrow> NumberToString env d)"

fun ToString :: "'d env \<Rightarrow> 'd jsvalue \<Rightarrow> error + jsstring"
  and ArrayJoin :: "'d env \<Rightarrow> 'd jsvalue list \<Rightarrow> error + jsstring" where
  "ToString env Undefined = Inr (js ''undefined'')"
| "ToString env Null = Inr (js ''null'')"
| "ToString env (Bool b) = Inr (if b then js ''true'' else js ''false'')"
| "ToString env (Num n) = Inr (num_str env n)"
| "ToString env (Str s) = Inr s"
| "ToString env (Arr xs) = ArrayJoin env xs"
| "ToString env (Obj kvs) =
     (if js ''toString'' \<in> fst ` set kvs then Inl TypeError else Inr (js ''[object Object]''))"
| "ArrayJoin env [] = Inr []"
| "ArrayJoin env (x # xs) =
     bind_e (if x = Undefined \<or> x = Null then Inr [] else ToString env x)
       (\<lambda>s. if xs = [] then Inr s
            else bind_e (ArrayJoin env xs) (\<lambda>t. Inr (s @ js '','' @ t)))"

text \<open>
  \<open>encodeURIComponent\<close>: an unreserved code unit stays; any other code point is replaced by
  the \<open>%XX\<close> escapes of its UTF-8 bytes; a surrogate that is not part of a pair throws.
\<close>

definition unreserved :: "nat \<Rightarrow> bool" where
  "unreserved c \<longleftrightarrow>
     (0x41 \<le> c \<and> c \<le> 0x5A) \<or> (0x61 \<le> c \<and> c \<le> 0x7A) \<or> (0x30 \<le> c \<and> c \<le> 0x39)
     \<or> c \<in> {0x2D, 0x5F, 0x2E, 0x21, 0x7E, 0x2A, 0x27, 0x28, 0x29}"

definition hex_digit :: "nat \<Rightarrow> nat" where
  "hex_digit n = (if n < 10 then 48 + n else 55 + n)"

definition pct :: "nat \<Rightarrow> jsstring" where
  "pct b = [0x25, hex_digit (b div 16), hex_digit (b mod 16)]"

definition utf8 :: "nat \<Rightarrow> nat list" where
  "utf8 cp =
     (if cp < 0x80 then [cp]
      else if cp < 0x800 then [0xC0 + cp div 64, 0x80 + cp mod 64]
      else if cp < 0x10000 then [0xE0 + cp div 4096, 0x80 + (cp div 64) mod 64, 0x80 + cp mod 64]
      else [0xF0 + cp div 262144, 0x80 + (cp div 4096) mod 64, 0x80 + (cp div 64) mod 64,
            0x80 + cp mod 64])"

definition pct_utf8 :: "nat \<Rightarrow> jsstring" where
  "pct_utf8 cp = concat (map pct (utf8 cp))"

definition lead_surrogate :: "nat \<Rightarrow> bool" where
  "lead_surrogate c \<longleftrightarrow> 0xD800 \<le> c \<and> c \<le> 0xDBFF"

definition trail_surrogate :: "nat \<Rightarrow> bool" where
  "trail_surrogate c \<longleftrightarrow> 0xDC00 \<le> c \<and> c \<le> 0xDFFF"

fun encodeURIComponent :: "jsstring \<Rightarrow> error + jsstring" where
  "encodeURIComponent [] = Inr []"
| "encodeURIComponent (c # cs) =
     (if unreserved c then bind_e (encodeURIComponent cs) (\<lambda>r. Inr (c # r))
      else if trail_surrogate c then Inl URIError
      else if lead_surrogate c then
        (case cs of
           [] \<Rightarrow> Inl URIError
         | d # ds \<Rightarrow>
             if trail_surrogate d then
               bind_e (encodeURIComponent ds)
                 (\<lambda>r. Inr (pct_utf8 ((c - 0xD800) * 0x400 + (d - 0xDC00) + 0x10000) @ r))
             else Inl URIError)
      else bind_e (encodeURIComponent cs) (\<lambda>r. Inr (pct_utf8 c @ r)))"

section \<open>Image normalization\<close>

text \<open>\<open>Buffer.toString("base64")\<close>: the standard alphabet, padded with \<open>=\<close>.\<close>

definition b64char :: "nat \<Rightarrow> nat" where
  "b64char n =
     (if n < 26 then 65 + n
      else if n < 52 then 97 + (n - 26)
      else if n < 62 then 48 + (n - 52)
      else if n = 62 then 0x2B
      else 0x2F)"

fun base64 :: "byte list \<Rightarrow> jsstring" where
  "base64 (a # b # c # rest) =
     [b64char (unat a div 4),
      b64char ((unat a mod 4) * 16 + unat b div 16),
      b64char ((unat b mod 16) * 4 + unat c div 64),
      b64char (unat c mod 64)] @ base64 rest"
| "base64 [a, b] =
     [b64char (unat a div 4),
      b64char ((unat a mod 4) * 16 + unat b div 16),
      b64char ((unat b mod 16) * 4),
      0x3D]"
| "base64 [a] =
     [b64char (unat a div 4), b64char ((unat a mod 4) * 16), 0x3D, 0x3D]"
| "base64 [] = []"

text \<open>
  \<open>compressImage\<close>: an empty buffer returns \<open>""\<close> before the image library is touched; a
  rejection of the resize/JPEG pipeline is caught and returns \<open>""\<close>; otherwise the base64
  text of the compressed bytes, cut by \<open>slice(0, 50000)\<close>. (The \<open>!buffer\<close> half of the
  guard is excluded by the parameter's type.)
\<close>

definition compressImage :: "'d env \<Rightarrow> byte list \<Rightarrow> jsstring \<times> event list" where
  "compressImage env buffer =
     (if length buffer = 0 then (js '''', [CompressImage])
      else (case sharp_toBuffer env buffer of
              Inl e \<Rightarrow> (js '''', [CompressImage, SharpToBuffer])
            | Inr compressedImageBuffer \<Rightarrow>
                (take 50000 (base64 compressedImageBuffer), [CompressImage, SharpToBuffer])))"

section \<open>Recommendation endpoint\<close>

record 'd GiftRecommendation =
  name :: "'d jsvalue"
  description :: "'d jsvalue"
  price :: "'d number"
  match_reason :: "'d jsvalue"
  amazon_link :: "jsstring option"
  etsy_link :: "jsstring option"

definition mixtral :: jsstring where
  "mixtral = js ''mixtral-8x7b-32768''"

definition analyzeImage_request :: chat_request where
  \<open>analyzeImage_request =
     \<lparr> model = mixtral,
       messages =
         [(js ''system'',
           js ''You are an expert at analyzing Instagram profiles. Provide a detailed analysis of the person's lifestyle, activities, and preferences to help recommend thoughtful gifts.''),
          (js ''user'',
           js ''Analyze this Instagram profile grid and describe what you observe:\<newline>1. What activities and hobbies are shown?\<newline>2. What locations or environments appear?\<newline>3. What lifestyle elements are visible?\<newline>4. What appears to be their main interests?\<newline>5. What themes or patterns do you notice?\<newline>\<newline>Provide a detailed analysis that could help recommend personalized gifts.'')],
       temperature = js ''0.5'',
       max_tokens = 500,
       top_p = None \<rparr>\<close>

text \<open>\<open>completion.choices[0]?.message?.content || ""\<close>\<close>

definition first_content_or_empty :: "chat_completion \<Rightarrow> jsstring" where
  "first_content_or_empty completion =
     (case choices completion of
        [] \<Rightarrow> []
      | ch # rest \<Rightarrow>
          (case message ch of
             None \<Rightarrow> []
           | Some msg \<Rightarrow> (case content msg of None \<Rightarrow> [] | Some text \<Rightarrow> text)))"

text \<open>\<open>analyzeImage\<close> sends a fixed prompt (the encoded image is not part of it) and returns
  the reply's text, or \<open>""\<close> when the call rejects.\<close>

definition analyzeImage :: "'d env \<Rightarrow> jsstring \<Rightarrow> jsstring \<times> event list" where
  "analyzeImage env base64Image =
     (case groq_create env analyzeImage_request of
        Inl e \<Rightarrow> ([], [AnalyzeImage, GroqCreate])
      | Inr completion \<Rightarrow> (first_content_or_empty completion, [AnalyzeImage, GroqCreate]))"

definition recommendations_request :: "'d env \<Rightarrow> 'd number \<Rightarrow> 'd number \<Rightarrow> jsstring \<Rightarrow> chat_request" where
  \<open>recommendations_request env age budget profileAnalysis =
     \<lparr> model = mixtral,
       messages =
         [(js ''system'',
           js ''You are a creative gift recommendation expert who specializes in unique, personalized gifts. Avoid common or generic suggestions like gift cards or passes. Instead, focus on specific items that match the person's exact interests and activities. Each recommendation should be distinct and tailored to different aspects of their lifestyle.''),
          (js ''user'',
           js ''Based on this Instagram profile analysis:\<newline>'' @ profileAnalysis
           @ js ''\<newline>\<newline>Generate 3 UNIQUE and SPECIFIC gift recommendations for a '' @ num_str env age
           @ js '' year old with a budget of $'' @ num_str env budget
           @ js ''. \<newline>Each gift should be different from the others and relate to different interests/activities shown in their profile.\<newline>Avoid generic items like passes, gift cards, or common accessories.\<newline>\<newline>Format as JSON array: [{"name": "Gift Name", "description": "Description", "price": number, "match_reason": "Reason"}].\<newline>Keep descriptions concise and avoid apostrophes.'')],
       temperature = js ''0.9'',
       max_tokens = 800,
       top_p = Some (js ''0.95'') \<rparr>\<close>

text \<open>\<open>response.choices[0].message.content?.trim() || "[]"\<close>: no first choice, or a choice
  without a message, throws.\<close>

definition reply_text :: "chat_completion \<Rightarrow> error + jsstring" where
  "reply_text response =
     (case choices response of
        [] \<Rightarrow> Inl TypeError
      | ch # rest \<Rightarrow>
          (case message ch of
             None \<Rightarrow> Inl TypeError
           | Some msg \<Rightarrow>
               (case content msg of
                  None \<Rightarrow> Inr (js ''[]'')
                | Some text \<Rightarrow> Inr (if trim text = [] then js ''[]'' else trim text))))"

text \<open>\<open>recommendationsText.match(/\[[\s\S]*\]/)\<close>: from the first \<open>[\<close> to the last \<open>]\<close>
  behind it.\<close>

definition jsonMatch :: "jsstring \<Rightarrow> jsstring option" where
  "jsonMatch s =
     (case dropWhile (\<lambda>c. c \<noteq> 0x5B) s of
        [] \<Rightarrow> None
      | b # body \<Rightarrow>
          if 0x5D \<in> set body then Some (b # rev (dropWhile (\<lambda>c. c \<noteq> 0x5D) (rev body)))
          else None)"

definition extract_json :: "jsstring \<Rightarrow> jsstring" where
  "extract_json recommendationsText =
     (case jsonMatch recommendationsText of Some m \<Rightarrow> m | None \<Rightarrow> recommendationsText)"

text \<open>The chain of twelve replacements, in the order of the source.\<close>

definition clean_json :: "jsstring \<Rightarrow> jsstring" where
  "clean_json t0 =
     (let t1 = replace_all (m_class (\<lambda>c. c = 0x201C \<or> c = 0x201D)) [0x22] t0;
          t2 = replace_all (m_class (\<lambda>c. c = 0x2018 \<or> c = 0x2019)) [0x27] t1;
          t3 = replace_all (m_class (\<lambda>c. c = 0x27)) [0x27] t2;
          t4 = replace_all (m_class (\<lambda>c. c = 0x0A)) [0x20] t3;
          t5 = replace_all m_comma_brace [0x7D] t4;
          t6 = replace_all m_spaces [0x20] t5;
          t7 = replace_all (m_around 0x3A) [0x3A] t6;
          t8 = replace_all (m_around 0x2C) [0x2C] t7;
          t9 = replace_all m_its (js ''it is'') t8;
          t10 = replace_all (m_then_space [0x27, 0x73]) (js ''s '') t9;
          t11 = replace_all (m_then_space [0x27, 0x72, 0x65]) (js '' are '') t10;
          t12 = replace_all (m_then_space [0x27, 0x74]) (js ''t '') t11
      in t12)"

definition amazon_prefix :: jsstring where
  "amazon_prefix = js ''https://www.amazon.com/s?k=''"

definition etsy_prefix :: jsstring where
  "etsy_prefix = js ''https://www.etsy.com/search?q=''"

text \<open>\<open>.replace(/[$,]/g, "")\<close>\<close>

definition strip_currency :: "jsstring \<Rightarrow> jsstring" where
  "strip_currency t = replace_all (m_class (\<lambda>c. c = 0x24 \<or> c = 0x2C)) [] t"

text \<open>The callback of \<open>recommendations.map\<close>, for one element \<open>rec\<close> of the parsed array.\<close>

definition to_recommendation :: "'d env \<Rightarrow> 'd number \<Rightarrow> 'd jsvalue \<Rightarrow> error + 'd GiftRecommendation" where
  "to_recommendation env budget rec =
     bind_e (get_prop rec (js ''name'')) (\<lambda>rec_name.
     bind_e (get_prop rec (js ''description'')) (\<lambda>rec_description.
     bind_e (get_prop rec (js ''price'')) (\<lambda>rec_price.
     bind_e (ToString env (or_else rec_price (Num budget))) (\<lambda>price_text.
     bind_e (get_prop rec (js ''match_reason'')) (\<lambda>rec_match_reason.
     bind_e (ToString env (or_else rec_name (Str []))) (\<lambda>name_text.
     bind_e (encodeURIComponent name_text) (\<lambda>encoded.
       Inr \<lparr> name = or_else rec_name (Str (js ''Gift suggestion'')),
             description = or_else rec_description (Str []),
             price = parseFloat env (strip_currency price_text),
             match_reason = or_else rec_match_reason (Str []),
             amazon_link = Some (amazon_prefix @ encoded),
             etsy_link = Some (etsy_prefix @ encoded) \<rparr>)))))))"

fun map_e :: "('a \<Rightarrow> error + 'b) \<Rightarrow> 'a list \<Rightarrow> error + 'b list" where
  "map_e f [] = Inr []"
| "map_e f (x # xs) = bind_e (f x) (\<lambda>y. bind_e (map_e f xs) (\<lambda>ys. Inr (y # ys)))"

text \<open>\<open>recommendations.map(...)\<close>: only an array has \<open>map\<close>.\<close>

definition map_recommendations :: "'d env \<Rightarrow> 'd number \<Rightarrow> 'd jsvalue \<Rightarrow> error + 'd GiftRecommendation list" where
  "map_recommendations env budget recommendations =
     (case recommendations of
        Arr recs \<Rightarrow> map_e (to_recommendation env budget) recs
      | _ \<Rightarrow> Inl TypeError)"

text \<open>The body of the \<open>try\<close> block, with every exception as a value.\<close>

definition try_recommendations :: "'d env \<Rightarrow> 'd number \<Rightarrow> 'd number \<Rightarrow> jsstring \<Rightarrow> error + 'd GiftRecommendation list" where
  "try_recommendations env age budget profileAnalysis =
     bind_e (groq_create env (recommendations_request env age budget profileAnalysis)) (\<lambda>response.
     bind_e (reply_text response) (\<lambda>recommendationsText.
     bind_e (JSON_parse env (clean_json (extract_json recommendationsText))) (\<lambda>recommendations.
       map_recommendations env budget recommendations)))"

text \<open>The fallback of the \<open>catch\<close> block; \<open>encodeURIComponent("gift")\<close> is \<open>gift\<close>.\<close>

definition fallback :: "'d number \<Rightarrow> 'd GiftRecommendation" where
  "fallback budget =
     \<lparr> name = Str (js ''No recommendations available''),
       description = Str (js ''No personalized gift recommendations available.''),
       price = budget,
       match_reason = Str (js ''No profile analysis available.''),
       amazon_link = Some (amazon_prefix @ js ''gift''),
       etsy_link = Some (etsy_prefix @ js ''gift'') \<rparr>"

definition generateGiftRecommendations :: "'d env \<Rightarrow> 'd number \<Rightarrow> 'd number \<Rightarrow> jsstring \<Rightarrow> 'd GiftRecommendation list \<times> event list" where
  "generateGiftRecommendations env age budget profileAnalysis =
     (case try_recommendations env age budget profileAnalysis of
        Inl e \<Rightarrow> ([fallback budget], [GenerateGiftRecommendations, GroqCreate])
      | Inr recs \<Rightarrow> (recs, [GenerateGiftRecommendations, GroqCreate]))"

subsection \<open>The handler\<close>

text \<open>An entry of the submitted form is a string or a file; \<open>formData.get\<close> gives \<open>null\<close>
  for a field that is not there. The request is what \<open>request.formData()\<close> resolves to, or
  its rejection.\<close>

datatype entry = EntryString jsstring | EntryFile "byte list"

type_synonym form = "jsstring \<Rightarrow> entry option"

record 'b response =
  status :: nat
  body :: 'b

datatype 'd recommend_body =
    RecommendError jsstring
  | Recommendations "'d GiftRecommendation list"

text \<open>\<open>Number(formData.get(...))\<close>: \<open>null\<close> is \<open>+0\<close>, a string is converted by the runtime,
  a file object is \<open>NaN\<close>.\<close>

definition Number_of_entry :: "'d env \<Rightarrow> entry option \<Rightarrow> 'd number" where
  "Number_of_entry env v =
     (case v of
        None \<Rightarrow> PosZero
      | Some (EntryString s) \<Rightarrow> StringToNumber env s
      | Some (EntryFile f) \<Rightarrow> NaN)"

text \<open>The \<open>if (imageFile)\<close> branch: a file is compressed and analysed; a non-empty string in
  the file field is truthy but has no \<open>arrayBuffer\<close>, which throws.\<close>

definition image_analysis :: "'d env \<Rightarrow> entry option \<Rightarrow> (error + jsstring) \<times> event list" where
  "image_analysis env imageFile =
     (case imageFile of
        None \<Rightarrow> (Inr [], [])
      | Some (EntryString s) \<Rightarrow> if s = [] then (Inr [], []) else (Inl TypeError, [])
      | Some (EntryFile bytes) \<Rightarrow>
          (let (base64Image, ev1) = compressImage env bytes;
               (profileAnalysis, ev2) = analyzeImage env base64Image
           in (Inr profileAnalysis, ev1 @ ev2)))"

definition POST_recommend :: "'d env \<Rightarrow> error + form \<Rightarrow> 'd recommend_body response \<times> event list" where
  "POST_recommend env request =
     (case request of
        Inl e \<Rightarrow>
          (\<lparr> status = 500, body = RecommendError (js ''Failed to get gift recommendations'') \<rparr>, [])
      | Inr formData \<Rightarrow>
          (let age = Number_of_entry env (formData (js ''age''));
               budget = Number_of_entry env (formData (js ''budget''));
               imageFile = formData (js ''instagram-grid'')
           in if \<not> num_truthy age \<or> \<not> num_truthy budget then
                (\<lparr> status = 400, body = RecommendError (js ''Missing required fields'') \<rparr>, [])
              else
                (case image_analysis env imageFile of
                   (Inl e, ev) \<Rightarrow>
                     (\<lparr> status = 500,
                        body = RecommendError (js ''Failed to get gift recommendations'') \<rparr>, ev)
                 | (Inr profileAnalysis, ev1) \<Rightarrow>
                     (let (recommendations, ev2) =
                            generateGiftRecommendations env age budget
                              (if profileAnalysis = [] then js ''No profile analysis available.''
                               else profileAnalysis)
                      in (\<lparr> status = 200, body = Recommendations recommendations \<rparr>,
                          ev1 @ ev2)))))"

section \<open>Scrape endpoint\<close>

record 'd post =
  imageUrl :: "jsstring option"
  caption :: "jsstring option"
  likes :: "'d transferred option"
  hashtags :: "jsstring list option"
  mentions :: "jsstring list option"

record 'd InstagramProfile =
  username :: "'d jsvalue"
  bio :: "jsstring option"
  posts :: "'d post list"

text \<open>What \<open>page.evaluate\<close> computes on a post's page, as it arrives in the handler: the
  result is transferred by value, which turns a \<open>NaN\<close> like count into \<open>null\<close>.\<close>

definition postData :: "'d env \<Rightarrow> page \<Rightarrow> 'd post" where
  "postData env pg =
     (let caption' = (case h1_textContent pg of None \<Rightarrow> [] | Some t \<Rightarrow> t);
          likes' = section_span_textContent pg
      in \<lparr> imageUrl = article_img_src pg,
           caption = Some caption',
           likes = Some (case parseInt env
                                (case likes' of None \<Rightarrow> js ''0''
                                 | Some t \<Rightarrow> if t = [] then js ''0'' else t) of
                           NaN \<Rightarrow> IsNull
                         | n \<Rightarrow> evaluate_number env n),
           hashtags = Some (match_all (m_tag 0x23) caption'),
           mentions = Some (match_all (m_tag 0x40) caption') \<rparr>)"

text \<open>The loop over the post URLs; \<open>n\<close> counts the navigations of the session. A navigation
  that rejects ends the loop with the exception.\<close>

fun visit_posts :: "'d env \<Rightarrow> nat \<Rightarrow> jsstring list \<Rightarrow> (error + 'd post list) \<times> event list" where
  "visit_posts env n [] = (Inr [], [])"
| "visit_posts env n (url # urls) =
     (case page_goto env n url of
        Inl e \<Rightarrow> (Inl e, [PageGoto url])
      | Inr pg \<Rightarrow>
          (case visit_posts env (Suc n) urls of
             (Inl e, ev) \<Rightarrow> (Inl e, PageGoto url # ev)
           | (Inr ps, ev) \<Rightarrow> (Inr (postData env pg # ps), PageGoto url # ev)))"

definition scrapeInstagramProfile :: "'d env \<Rightarrow> 'd jsvalue \<Rightarrow> 'd InstagramProfile option \<times> event list" where
  "scrapeInstagramProfile env username' =
     (case puppeteer_launch env of
        Some e \<Rightarrow> (None, [ScrapeInstagramProfile, BrowserLaunch])
      | None \<Rightarrow>
          (case ToString env username' of
             Inl e \<Rightarrow> (None, [ScrapeInstagramProfile, BrowserLaunch])
           | Inr name_text \<Rightarrow>
               (let url = js ''https://www.instagram.com/'' @ name_text @ js ''/''
                in case page_goto env 0 url of
                     Inl e \<Rightarrow> (None, [ScrapeInstagramProfile, BrowserLaunch, PageGoto url])
                   | Inr profile_page \<Rightarrow>
                       if article_a_hrefs profile_page = [] then
                         (None, [ScrapeInstagramProfile, BrowserLaunch, PageGoto url, WaitForSelector])
                       else
                         (let postUrls = take 10 (article_a_hrefs profile_page);
                              ev0 = [ScrapeInstagramProfile, BrowserLaunch, PageGoto url, WaitForSelector]
                          in case visit_posts env 1 postUrls of
                               (Inl e, ev1) \<Rightarrow> (None, ev0 @ ev1)
                             | (Inr scraped, ev1) \<Rightarrow>
                                 (case page_goto env (Suc (length postUrls)) url of
                                    Inl e \<Rightarrow> (None, ev0 @ ev1 @ [PageGoto url])
                                  | Inr bio_page \<Rightarrow>
                                      (Some \<lparr> username = username',
                                              bio = Some (case bio_span_textContent bio_page of
                                                            None \<Rightarrow> [] | Some t \<Rightarrow> t),
                                              posts = scraped \<rparr>,
                                       ev0 @ ev1 @ [PageGoto url, BrowserClose]))))))"

text \<open>Decimal digits of an array index, as \<open>${i + 1}\<close> prints it.\<close>

function decimal :: "nat \<Rightarrow> jsstring" where
  "decimal n = (if n < 10 then [48 + n] else decimal (n div 10) @ [48 + n mod 10])"
  by pat_completeness auto
termination
  by (relation "measure id") auto

fun join :: "jsstring \<Rightarrow> jsstring list \<Rightarrow> jsstring" where
  "join sep [] = []"
| "join sep [x] = x"
| "join sep (x # y # ys) = x @ sep @ join sep (y # ys)"

definition post_summary :: "'d env \<Rightarrow> nat \<Rightarrow> 'd post \<Rightarrow> jsstring" where
  "post_summary env i post =
     js ''\<newline>Post '' @ decimal (i + 1)
     @ js '':\<newline>Caption: '' @ (case caption post of None \<Rightarrow> js ''undefined'' | Some c \<Rightarrow> c)
     @ js ''\<newline>Hashtags: ''
     @ (case hashtags post of None \<Rightarrow> js ''undefined'' | Some tags \<Rightarrow> join (js '', '') tags)
     @ js ''\<newline>Likes: ''
     @ (case likes post of None \<Rightarrow> js ''undefined'' | Some IsNull \<Rightarrow> js ''null''
        | Some (IsNumber n) \<Rightarrow> num_str env n)
     @ js ''\<newline>''"

definition profileSummary :: "'d env \<Rightarrow> 'd InstagramProfile \<Rightarrow> jsstring" where
  "profileSummary env profileData =
     js ''\<newline>Bio: '' @ (case bio profileData of None \<Rightarrow> js ''undefined'' | Some b \<Rightarrow> b)
     @ js ''\<newline>\<newline>Posts Analysis:\<newline>''
     @ join (js ''\<newline>'')
         (map (\<lambda>i. post_summary env i (posts profileData ! i)) [0..<length (posts profileData)])
     @ js ''\<newline>''"

definition analyzeProfile_request :: "'d env \<Rightarrow> 'd InstagramProfile \<Rightarrow> chat_request" where
  \<open>analyzeProfile_request env profileData =
     \<lparr> model = mixtral,
       messages =
         [(js ''system'',
           js ''You are an expert at analyzing Instagram profiles. Provide a detailed analysis of the person's lifestyle, activities, and preferences to help recommend thoughtful gifts.''),
          (js ''user'',
           js ''Analyze this Instagram profile and describe what you observe:\<newline>''
           @ profileSummary env profileData
           @ js ''\<newline>\<newline>1. What activities and hobbies are shown?\<newline>2. What locations or environments appear?\<newline>3. What lifestyle elements are visible?\<newline>4. What appears to be their main interests?\<newline>5. What themes or patterns do you notice?\<newline>\<newline>Provide a detailed analysis that could help recommend personalized gifts.'')],
       temperature = js ''0.5'',
       max_tokens = 500,
       top_p = None \<rparr>\<close>

definition analyzeProfile :: "'d env \<Rightarrow> 'd InstagramProfile \<Rightarrow> jsstring \<times> event list" where
  "analyzeProfile env profileData =
     (case groq_create env (analyzeProfile_request env profileData) of
        Inl e \<Rightarrow> ([], [AnalyzeProfile, GroqCreate])
      | Inr completion \<Rightarrow> (first_content_or_empty completion, [AnalyzeProfile, GroqCreate]))"

subsection \<open>Interests\<close>

text \<open>\<open>interests.add\<close> on a \<open>Set\<close>, kept in insertion order as \<open>Array.from\<close> lists it.\<close>

definition set_add :: "jsstring \<Rightarrow> jsstring list \<Rightarrow> jsstring list" where
  "set_add x interests = (if x \<in> set interests then interests else interests @ [x])"

text \<open>\<open>tag.slice(1).toLowerCase()\<close>\<close>

definition tag_interest :: "'d env \<Rightarrow> jsstring \<Rightarrow> jsstring" where
  "tag_interest env tag = toLowerCase env (drop 1 tag)"

text \<open>\<open>text.toLowerCase().split(/\W+/).filter((word) => word.length > 3)\<close>\<close>

definition extract_keywords :: "'d env \<Rightarrow> jsstring \<Rightarrow> jsstring list" where
  "extract_keywords env text = filter (\<lambda>word. length word > 3) (split_nonword [] (toLowerCase env text))"

definition add_hashtags :: "'d env \<Rightarrow> 'd post list \<Rightarrow> jsstring list \<Rightarrow> jsstring list" where
  "add_hashtags env ps interests =
     fold (\<lambda>post acc. case hashtags post of
                         None \<Rightarrow> acc
                       | Some tags \<Rightarrow> fold (\<lambda>tag. set_add (tag_interest env tag)) tags acc)
          ps interests"

definition add_caption_keywords :: "'d env \<Rightarrow> 'd post list \<Rightarrow> jsstring list \<Rightarrow> jsstring list" where
  "add_caption_keywords env ps interests =
     fold (\<lambda>post acc. case caption post of
                         None \<Rightarrow> acc
                       | Some c \<Rightarrow> fold set_add (extract_keywords env c) acc)
          ps interests"

definition add_bio_keywords :: "'d env \<Rightarrow> jsstring option \<Rightarrow> jsstring list \<Rightarrow> jsstring list" where
  "add_bio_keywords env b interests =
     (case b of None \<Rightarrow> interests | Some t \<Rightarrow> fold set_add (extract_keywords env t) interests)"

definition extract_interests :: "'d env \<Rightarrow> 'd InstagramProfile \<Rightarrow> jsstring list" where
  "extract_interests env profileData =
     add_bio_keywords env (bio profileData)
       (add_caption_keywords env (posts profileData)
          (add_hashtags env (posts profileData) []))"

subsection \<open>The handler\<close>

datatype 'd scrape_body =
    ScrapeError jsstring
  | ScrapeResult "'d InstagramProfile" "jsstring list" jsstring

text \<open>The request is what \<open>request.json()\<close> resolves to, or its rejection. Destructuring
  \<open>{ username }\<close> reads the property, and throws on \<open>null\<close>.\<close>

definition POST_scrape :: "'d env \<Rightarrow> error + 'd jsvalue \<Rightarrow> 'd scrape_body response \<times> event list" where
  "POST_scrape env request =
     (case bind_e request (\<lambda>json. get_prop json (js ''username'')) of
        Inl e \<Rightarrow> (\<lparr> status = 500, body = ScrapeError (js ''Failed to fetch Instagram data'') \<rparr>, [])
      | Inr name_value \<Rightarrow>
          if \<not> truthy name_value then
            (\<lparr> status = 400, body = ScrapeError (js ''Username is required'') \<rparr>, [])
          else
            (case scrapeInstagramProfile env name_value of
               (None, ev) \<Rightarrow>
                 (\<lparr> status = 404, body = ScrapeError (js ''Failed to fetch Instagram data'') \<rparr>, ev)
             | (Some profileData, ev1) \<Rightarrow>
                 (let (analysis, ev2) = analyzeProfile env profileData;
                      interests = extract_interests env profileData
                  in (\<lparr> status = 200, body = ScrapeResult profileData interests analysis \<rparr>,
                      ev1 @ ev2))))"

section \<open>Sample environment\<close>

text \<open>
  A concrete environment for evaluating the handlers on sample requests. Its numbers are
  the integers, and its conversions cover what the samples need: unsigned decimal integer
  texts for the numeric conversions, and four texts for \<open>JSON.parse\<close>; every other text is
  \<open>NaN\<close>, respectively a syntax error. The image library accepts one two-byte input. The
  inference API answers every request with the given reply. The browser finds one profile
  with one post.
\<close>

fun digits_value :: "jsstring \<Rightarrow> nat \<Rightarrow> nat option" where
  "digits_value [] acc = Some acc"
| "digits_value (c # cs) acc =
     (if 0x30 \<le> c \<and> c \<le> 0x39 then digits_value cs (acc * 10 + (c - 48)) else None)"

definition sample_number :: "jsstring \<Rightarrow> int number" where
  "sample_number s =
     (if s = [] then NaN
      else (case digits_value s 0 of
              None \<Rightarrow> NaN
            | Some n \<Rightarrow> if n = 0 then PosZero else Nonzero (int n)))"

definition sample_JSON_parse :: "jsstring \<Rightarrow> error + int jsvalue" where
  \<open>sample_JSON_parse s =
     (if s = js ''null'' then Inr Null
      else if s = js ''[{"name":"Tea & mug (blue)","price":"$1,200"}]'' then
        Inr (Arr [Obj [(js ''name'', Str (js ''Tea & mug (blue)'')),
                       (js ''price'', Str (js ''$1,200''))]])
      else if s = js ''[{"name":"Mug","price":0}]'' then
        Inr (Arr [Obj [(js ''name'', Str (js ''Mug'')), (js ''price'', Num PosZero)]])
      else if s = js ''[{"price":20}]'' then
        Inr (Arr [Obj [(js ''price'', Num (Nonzero 20))]])
      else Inl SyntaxError)\<close>

definition sample_profile_url :: jsstring where
  "sample_profile_url = js ''https://www.instagram.com/alice/''"

definition sample_post_url :: jsstring where
  "sample_post_url = js ''https://www.instagram.com/p/1/''"

definition sample_post_page :: page where
  "sample_post_page =
     \<lparr> article_a_hrefs = [], h1_textContent = Some (js ''Day off! #gift #fun''),
       article_img_src = Some (js ''https://cdn.example/1.jpg''),
       section_span_textContent = Some (js ''12''),
       bio_span_textContent = None \<rparr>"

text \<open>A second profile, whose only post has an upper-case hashtag, no like count and no
  image, and whose page shows no bio.\<close>

definition upper_profile_url :: jsstring where
  "upper_profile_url = js ''https://www.instagram.com/bob/''"

definition upper_post_url :: jsstring where
  "upper_post_url = js ''https://www.instagram.com/p/2/''"

definition upper_profile_page :: page where
  "upper_profile_page =
     \<lparr> article_a_hrefs = [upper_post_url], h1_textContent = None,
       article_img_src = None, section_span_textContent = None,
       bio_span_textContent = None \<rparr>"

definition upper_post_page :: page where
  "upper_post_page =
     \<lparr> article_a_hrefs = [], h1_textContent = Some (js ''Go #FUN''),
       article_img_src = None, section_span_textContent = None,
       bio_span_textContent = None \<rparr>"

definition sample_page_goto :: "nat \<Rightarrow> jsstring \<Rightarrow> error + page" where
  "sample_page_goto n url =
     (if url = sample_profile_url then
        Inr \<lparr> article_a_hrefs = [sample_post_url], h1_textContent = None,
              article_img_src = None, section_span_textContent = None,
              bio_span_textContent = Some (js ''Tea and coffee fan'') \<rparr>
      else if url = sample_post_url then Inr sample_post_page
      else if url = upper_profile_url then Inr upper_profile_page
      else if url = upper_post_url then Inr upper_post_page
      else Inl ExternalError)"

definition sample_env :: "jsstring \<Rightarrow> int env" where
  "sample_env reply =
     \<lparr> JSON_parse = sample_JSON_parse,
       parseFloat = sample_number,
       parseInt = sample_number,
       StringToNumber = (\<lambda>s. if s = [] then PosZero else sample_number s),
       NumberToString = (\<lambda>d. if d < 0 then 0x2D # decimal (nat (- d)) else decimal (nat d)),
       unicode_lower = (\<lambda>s i. [s ! i]),
       sharp_toBuffer = (\<lambda>b. if b = [0x4D, 0x61] then Inr [0x4D, 0x61, 0x6E] else Inl ExternalError),
       groq_create = (\<lambda>r. Inr (Completion [Choice (Some (Message (Some reply)))])),
       puppeteer_launch = None,
       page_goto = sample_page_goto,
       evaluate_number = IsNumber \<rparr>"

text \<open>Sample replies of the inference API with the values they parse to, and sample forms.\<close>

definition tea_reply :: jsstring where
  \<open>tea_reply = js ''[{"name":"Tea & mug (blue)","price":"$1,200"}]''\<close>

definition tea_rec :: "int jsvalue" where
  \<open>tea_rec = Obj [(js ''name'', Str (js ''Tea & mug (blue)'')), (js ''price'', Str (js ''$1,200''))]\<close>

definition zero_reply :: jsstring where
  \<open>zero_reply = js ''[{"name":"Mug","price":0}]''\<close>

definition zero_rec :: "int jsvalue" where
  \<open>zero_rec = Obj [(js ''name'', Str (js ''Mug'')), (js ''price'', Num PosZero)]\<close>

definition noname_reply :: jsstring where
  \<open>noname_reply = js ''[{"price":20}]''\<close>

definition noname_rec :: "int jsvalue" where
  \<open>noname_rec = Obj [(js ''price'', Num (Nonzero 20))]\<close>

definition form_no_age :: form where
  "form_no_age k = (if k = js ''budget'' then Some (EntryString (js ''50'')) else None)"

definition form_zero_age :: form where
  "form_zero_age k =
     (if k = js ''age'' then Some (EntryString (js ''0''))
      else if k = js ''budget'' then Some (EntryString (js ''50''))
      else None)"

definition form_text_budget :: form where
  "form_text_budget k =
     (if k = js ''age'' then Some (EntryString (js ''30''))
      else if k = js ''budget'' then Some (EntryString (js ''cheap''))
      else None)"

text \<open>The post and the profile that the scraper builds from the sample pages, and a
  request for it.\<close>

definition sample_post :: "int post" where
  "sample_post =
     \<lparr> imageUrl = Some (js ''https://cdn.example/1.jpg''),
       caption = Some (js ''Day off! #gift #fun''),
       likes = Some (IsNumber (Nonzero 12)),
       hashtags = Some [js ''#gift'', js ''#fun''],
       mentions = Some [] \<rparr>"

definition sample_profile :: "int InstagramProfile" where
  "sample_profile =
     \<lparr> username = Str (js ''alice''), bio = Some (js ''Tea and coffee fan''), posts = [sample_post] \<rparr>"

definition sample_scrape_request :: "error + int jsvalue" where
  "sample_scrape_request = Inr (Obj [(js ''username'', Str (js ''alice''))])"

definition upper_post :: "int post" where
  "upper_post =
     \<lparr> imageUrl = None,
       caption = Some (js ''Go #FUN''),
       likes = Some (IsNumber PosZero),
       hashtags = Some [js ''#FUN''],
       mentions = Some [] \<rparr>"

definition upper_profile :: "int InstagramProfile" where
  "upper_profile = \<lparr> username = Str (js ''bob''), bio = Some [], posts = [upper_post] \<rparr>"

definition upper_scrape_request :: "error + int jsvalue" where
  "upper_scrape_request = Inr (Obj [(js ''username'', Str (js ''bob''))])"

section \<open>Properties of image normalization\<close>

lemma length_compressImage: "length (fst (compressImage env buffer)) \<le> 50000"
  by (simp add: compressImage_def js_def split: sum.split)

text \<open>
  Claim C7. For every byte buffer, \<open>compressImage\<close> returns a string of at most 50000
  code units; it returns the empty string when the buffer is empty (without calling the
  image library) and when the image library rejects; otherwise it returns the first 50000
  code units of the base64 text of the compressed bytes. The function is total: no
  exception leaves it.
\<close>

theorem compressImage_bounded:
  "length (fst (compressImage env buffer)) \<le> 50000
   \<and> (buffer = [] \<longrightarrow> compressImage env buffer = ([], [CompressImage]))
   \<and> (\<forall>e. sharp_toBuffer env buffer = Inl e \<longrightarrow> fst (compressImage env buffer) = [])
   \<and> (\<forall>out. buffer \<noteq> [] \<and> sharp_toBuffer env buffer = Inr out \<longrightarrow>
          fst (compressImage env buffer) = take 50000 (base64 out))"
  using length_compressImage [of env buffer]
  by (auto simp add: compressImage_def js_def)

theorem compressImage_bounded_witness:
  "compressImage (sample_env []) [] = ([], [CompressImage])
   \<and> sharp_toBuffer (sample_env []) [0x00, 0x01] = Inl ExternalError
   \<and> fst (compressImage (sample_env []) [0x00, 0x01]) = []
   \<and> sharp_toBuffer (sample_env []) [0x4D, 0x61] = Inr [0x4D, 0x61, 0x6E]
   \<and> fst (compressImage (sample_env []) [0x4D, 0x61]) = js ''TWFu''
   \<and> length (fst (compressImage (sample_env []) [0x4D, 0x61])) \<le> 50000"
  using compressImage_bounded [of "sample_env []" "[]"]
    compressImage_bounded [of "sample_env []" "[0x00, 0x01]"]
    compressImage_bounded [of "sample_env []" "[0x4D, 0x61]"]
  by (simp add: sample_env_def js_def b64char_def)

section \<open>Properties of recommendation generation\<close>

lemma bind_e_Inl [simp]: "bind_e (Inl e) f = Inl e"
  by (simp add: bind_e_def)

lemma bind_e_Inr [simp]: "bind_e (Inr x) f = f x"
  by (simp add: bind_e_def)

lemma bind_e_Inr_iff: "bind_e m f = Inr y \<longleftrightarrow> (\<exists>x. m = Inr x \<and> f x = Inr y)"
  by (cases m) simp_all

lemma map_e_nth:
  "map_e f xs = Inr ys \<Longrightarrow> length ys = length xs \<and> (\<forall>i<length xs. f (xs ! i) = Inr (ys ! i))"
proof (induction xs arbitrary: ys)
  case Nil
  then show ?case by simp
next
  case (Cons x xs)
  from Cons.prems obtain y zs where y: "f x = Inr y" and zs: "map_e f xs = Inr zs" and ys: "ys = y # zs"
    by (auto simp: bind_e_Inr_iff)
  from Cons.IH [OF zs] y ys show ?case
    by (auto simp: nth_Cons split: nat.splits)
qed

lemma strip_currency_filter:
  "strip_currency t = filter (\<lambda>c. c \<noteq> 0x24 \<and> c \<noteq> 0x2C) t"
  unfolding strip_currency_def by (induction t) (simp_all add: m_class_def)

lemma generate_of_try:
  "fst (generateGiftRecommendations env age budget pa) =
     (case try_recommendations env age budget pa of Inl e \<Rightarrow> [fallback budget] | Inr recs \<Rightarrow> recs)"
  by (simp add: generateGiftRecommendations_def split: sum.split)

lemma try_recommendations_Inr:
  assumes "groq_create env (recommendations_request env age budget pa) = Inr response"
    and "reply_text response = Inr text"
    and "JSON_parse env (clean_json (extract_json text)) = Inr (Arr recs)"
    and "map_e (to_recommendation env budget) recs = Inr out"
  shows "fst (generateGiftRecommendations env age budget pa) = out"
  using assms by (simp add: generate_of_try try_recommendations_def map_recommendations_def)

lemma to_recommendation_price:
  assumes "to_recommendation env budget rec = Inr r"
  shows "\<exists>p t. get_prop rec (js ''price'') = Inr p \<and> ToString env (or_else p (Num budget)) = Inr t
           \<and> price r = parseFloat env (filter (\<lambda>c. c \<noteq> 0x24 \<and> c \<noteq> 0x2C) t)"
  using assms
  by (auto simp: to_recommendation_def bind_e_Inr_iff strip_currency_filter)

lemma to_recommendation_name:
  assumes "to_recommendation env budget rec = Inr r"
  shows "\<exists>n t e. get_prop rec (js ''name'') = Inr n \<and> ToString env (or_else n (Str [])) = Inr t
           \<and> encodeURIComponent t = Inr e
           \<and> name r = or_else n (Str (js ''Gift suggestion''))
           \<and> amazon_link r = Some (amazon_prefix @ e) \<and> etsy_link r = Some (etsy_prefix @ e)"
  using assms
  by (auto simp: to_recommendation_def bind_e_Inr_iff)

subsection \<open>Percent-encoding\<close>

lemma hex_digit_unreserved: "n < 16 \<Longrightarrow> unreserved (hex_digit n)"
proof -
  assume "n < 16"
  then have "n \<in> {0, 1, 2, 3, 4, 5, 6, 7, 8, 9, 10, 11, 12, 13, 14, 15}"
    by simp arith
  then show ?thesis
    by (auto simp: hex_digit_def unreserved_def)
qed

lemma pct_chars: "b < 256 \<Longrightarrow> c \<in> set (pct b) \<Longrightarrow> unreserved c \<or> c = 0x25"
  by (auto simp: pct_def intro!: hex_digit_unreserved)

lemma utf8_bytes: "cp < 0x110000 \<Longrightarrow> b \<in> set (utf8 cp) \<Longrightarrow> b < 256"
  by (auto simp: utf8_def split: if_splits)

lemma pct_utf8_chars: "cp < 0x110000 \<Longrightarrow> c \<in> set (pct_utf8 cp) \<Longrightarrow> unreserved c \<or> c = 0x25"
  by (auto simp: pct_utf8_def dest: utf8_bytes pct_chars)

lemma pair_bound:
  "lead_surrogate c \<Longrightarrow> trail_surrogate d \<Longrightarrow>
     (c - 0xD800) * 0x400 + (d - 0xDC00) + 0x10000 < 0x110000"
  by (simp add: lead_surrogate_def trail_surrogate_def) arith

lemma encode_chars:
  "encodeURIComponent s = Inr e \<Longrightarrow> wf_string s \<Longrightarrow> c \<in> set e \<Longrightarrow> unreserved c \<or> c = 0x25"
proof (induction s arbitrary: e rule: encodeURIComponent.induct)
  case 1
  then show ?case by simp
next
  case (2 a cs)
  from "2.prems" have wf: "wf_string cs" and a: "a < 0x110000"
    by (auto simp: wf_string_def)
  show ?case
  proof (cases "unreserved a")
    case True
    with 2 wf show ?thesis by (auto simp: bind_e_Inr_iff)
  next
    case False
    note nu = this
    show ?thesis
    proof (cases "lead_surrogate a")
      case True
      with 2 nu wf show ?thesis
        by (auto simp: bind_e_Inr_iff wf_string_def split: if_splits list.splits dest: pct_utf8_chars [OF pair_bound])
    next
      case False
      with 2 nu wf a show ?thesis
        by (auto simp: bind_e_Inr_iff split: if_splits dest: pct_utf8_chars)
    qed
  qed
qed

lemma encode_bmp:
  "\<forall>c\<in>set s. \<not> lead_surrogate c \<and> \<not> trail_surrogate c \<Longrightarrow>
     encodeURIComponent s = Inr (concat (map (\<lambda>c. if unreserved c then [c] else pct_utf8 c) s))"
  by (induction s) simp_all

subsection \<open>Evaluation of the samples\<close>

lemmas clean_defs = clean_json_def extract_json_def jsonMatch_def m_class_def m_comma_brace_def
  m_spaces_def m_around_def m_its_def m_then_space_def is_space_def

lemma sample_groq:
  "groq_create (sample_env reply) r = Inr (Completion [Choice (Some (Message (Some reply)))])"
  by (simp add: sample_env_def)

lemma sample_parse: "JSON_parse (sample_env reply) = sample_JSON_parse"
  by (simp add: sample_env_def)

lemma sample_parseFloat: "parseFloat (sample_env reply) = sample_number"
  by (simp add: sample_env_def)

lemma sample_NumberToString:
  "NumberToString (sample_env reply) d = (if d < 0 then 0x2D # decimal (nat (- d)) else decimal (nat d))"
  by (simp add: sample_env_def)

lemmas rec_defs = to_recommendation_def or_else_def num_truthy_def num_str_def strip_currency_filter
  sample_parseFloat sample_NumberToString
  unreserved_def lead_surrogate_def trail_surrogate_def pct_utf8_def utf8_def pct_def hex_digit_def
  amazon_prefix_def etsy_prefix_def sample_number_def

lemma ev_text_sorry:
  "reply_text (Completion [Choice (Some (Message (Some (js ''Sorry, no ideas.''))))]) = Inr (js ''Sorry, no ideas.'')"
  by (simp add: reply_text_def trim_def js_def is_space_def)

lemma ev_parse_sorry:
  "JSON_parse (sample_env r) (clean_json (extract_json (js ''Sorry, no ideas.''))) = Inl SyntaxError"
  by (simp add: clean_defs js_def sample_JSON_parse_def sample_parse)

lemma ev_text_null:
  "reply_text (Completion [Choice (Some (Message (Some (js ''null''))))]) = Inr (js ''null'')"
  by (simp add: reply_text_def trim_def js_def is_space_def)

lemma ev_parse_null:
  "JSON_parse (sample_env r) (clean_json (extract_json (js ''null''))) = Inr Null"
  by (simp add: clean_defs js_def sample_JSON_parse_def sample_parse)

lemma ev_text_tea:
  "reply_text (Completion [Choice (Some (Message (Some tea_reply)))]) = Inr tea_reply"
  by (simp add: reply_text_def trim_def js_def is_space_def tea_reply_def)

lemma ev_parse_tea:
  "JSON_parse (sample_env r) (clean_json (extract_json tea_reply)) = Inr (Arr [tea_rec])"
  by (simp add: clean_defs js_def sample_JSON_parse_def sample_parse tea_reply_def tea_rec_def)

lemma ev_map_tea:
  "map_e (to_recommendation (sample_env r) (Nonzero 50)) [tea_rec] =
     Inr [\<lparr> name = Str (js ''Tea & mug (blue)''), description = Str [], price = Nonzero 1200,
            match_reason = Str [],
            amazon_link = Some (js ''https://www.amazon.com/s?k=Tea%20%26%20mug%20(blue)''),
            etsy_link = Some (js ''https://www.etsy.com/search?q=Tea%20%26%20mug%20(blue)'') \<rparr>]"
  by (simp add: rec_defs js_def tea_rec_def)

lemma ev_text_zero:
  "reply_text (Completion [Choice (Some (Message (Some zero_reply)))]) = Inr zero_reply"
  by (simp add: reply_text_def trim_def js_def is_space_def zero_reply_def)

lemma ev_parse_zero:
  "JSON_parse (sample_env r) (clean_json (extract_json zero_reply)) = Inr (Arr [zero_rec])"
  by (simp add: clean_defs js_def sample_JSON_parse_def sample_parse zero_reply_def zero_rec_def)

lemma ev_map_zero:
  "map_e (to_recommendation (sample_env r) (Nonzero 50)) [zero_rec] =
     Inr [\<lparr> name = Str (js ''Mug''), description = Str [], price = Nonzero 50,
            match_reason = Str [],
            amazon_link = Some (js ''https://www.amazon.com/s?k=Mug''),
            etsy_link = Some (js ''https://www.etsy.com/search?q=Mug'') \<rparr>]"
  by (simp add: rec_defs js_def zero_rec_def)

lemma ev_gen_zero:
  "fst (generateGiftRecommendations (sample_env zero_reply) (Nonzero 30) (Nonzero 50) []) =
     [\<lparr> name = Str (js ''Mug''), description = Str [], price = Nonzero 50,
        match_reason = Str [],
        amazon_link = Some (js ''https://www.amazon.com/s?k=Mug''),
        etsy_link = Some (js ''https://www.etsy.com/search?q=Mug'') \<rparr>]"
  by (rule try_recommendations_Inr [OF sample_groq ev_text_zero ev_parse_zero ev_map_zero])

lemma ev_text_noname:
  "reply_text (Completion [Choice (Some (Message (Some noname_reply)))]) = Inr noname_reply"
  by (simp add: reply_text_def trim_def js_def is_space_def noname_reply_def)

lemma ev_parse_noname:
  "JSON_parse (sample_env r) (clean_json (extract_json noname_reply)) = Inr (Arr [noname_rec])"
  by (simp add: clean_defs js_def sample_JSON_parse_def sample_parse noname_reply_def noname_rec_def)

lemma ev_map_noname:
  "map_e (to_recommendation (sample_env r) (Nonzero 50)) [noname_rec] =
     Inr [\<lparr> name = Str (js ''Gift suggestion''), description = Str [], price = Nonzero 20,
            match_reason = Str [],
            amazon_link = Some (js ''https://www.amazon.com/s?k=''),
            etsy_link = Some (js ''https://www.etsy.com/search?q='') \<rparr>]"
  by (simp add: rec_defs js_def noname_rec_def)

lemma ev_gen_noname:
  "fst (generateGiftRecommendations (sample_env noname_reply) (Nonzero 30) (Nonzero 50) []) =
     [\<lparr> name = Str (js ''Gift suggestion''), description = Str [], price = Nonzero 20,
            match_reason = Str [],
            amazon_link = Some (js ''https://www.amazon.com/s?k=''),
            etsy_link = Some (js ''https://www.etsy.com/search?q='') \<rparr>]"
  by (rule try_recommendations_Inr [OF sample_groq ev_text_noname ev_parse_noname ev_map_noname])

lemma ev_encode_gift_suggestion:
  "encodeURIComponent (js ''Gift suggestion'') = Inr (js ''Gift%20suggestion'')"
  by (simp add: js_def unreserved_def lead_surrogate_def trail_surrogate_def pct_utf8_def utf8_def pct_def hex_digit_def)

lemma ev_name_tea: "get_prop tea_rec (js ''name'') = Inr (Str (js ''Tea & mug (blue)''))"
  by (simp add: tea_rec_def js_def)

lemma ev_name_noname: "get_prop noname_rec (js ''name'') = Inr Undefined"
  by (simp add: noname_rec_def js_def)

subsection \<open>Fallback, prices and links\<close>

text \<open>
  Claim C1. When the inference call has returned a reply and the cleaned reply text is
  rejected by \<open>JSON.parse\<close>, or parses to a value that \<open>map\<close> cannot turn into
  recommendations (it is not an array, or the callback throws on an element),
  \<open>generateGiftRecommendations\<close> returns the list of exactly one element, the fallback
  recommendation, whose price is the requested budget. The function returns a list in every
  case; no exception leaves it.
\<close>

theorem generateGiftRecommendations_fallback:
  assumes "groq_create env (recommendations_request env age budget profileAnalysis) = Inr response"
    and "reply_text response = Inr recommendationsText"
    and "(\<exists>e. JSON_parse env (clean_json (extract_json recommendationsText)) = Inl e)
         \<or> (\<exists>recommendations e.
               JSON_parse env (clean_json (extract_json recommendationsText)) = Inr recommendations
               \<and> map_recommendations env budget recommendations = Inl e)"
  shows "fst (generateGiftRecommendations env age budget profileAnalysis) = [fallback budget]
         \<and> length (fst (generateGiftRecommendations env age budget profileAnalysis)) = 1
         \<and> price (hd (fst (generateGiftRecommendations env age budget profileAnalysis))) = budget"
proof -
  have "isl (try_recommendations env age budget profileAnalysis)"
    using assms by (auto simp: try_recommendations_def)
  then have "fst (generateGiftRecommendations env age budget profileAnalysis) = [fallback budget]"
    by (auto simp: generate_of_try isl_def)
  then show ?thesis by (simp add: fallback_def)
qed

theorem generateGiftRecommendations_fallback_witness:
  "JSON_parse (sample_env (js ''Sorry, no ideas.'')) (clean_json (extract_json (js ''Sorry, no ideas.''))) = Inl SyntaxError
   \<and> fst (generateGiftRecommendations (sample_env (js ''Sorry, no ideas.'')) (Nonzero 30) (Nonzero 50) [])
       = [fallback (Nonzero 50)]
   \<and> JSON_parse (sample_env (js ''null'')) (clean_json (extract_json (js ''null''))) = Inr Null
   \<and> map_recommendations (sample_env (js ''null'')) (Nonzero 50) Null = Inl TypeError
   \<and> fst (generateGiftRecommendations (sample_env (js ''null'')) (Nonzero 30) (Nonzero 50) [])
       = [fallback (Nonzero 50)]
   \<and> price (fallback (Nonzero 50 :: int number)) = Nonzero 50"
  using generateGiftRecommendations_fallback
          [of "sample_env (js ''Sorry, no ideas.'')" "Nonzero 30" "Nonzero 50" "[]", OF sample_groq ev_text_sorry]
        generateGiftRecommendations_fallback
          [of "sample_env (js ''null'')" "Nonzero 30" "Nonzero 50" "[]", OF sample_groq ev_text_null]
  by (simp add: ev_parse_sorry ev_parse_null map_recommendations_def fallback_def)

text \<open>
  Claim C3, as amended. For every recommendation produced from a successfully parsed and
  mapped reply, the price is \<open>parseFloat\<close> of a text with every \<open>$\<close> and \<open>,\<close> removed;
  that text is the string conversion of the model's price value when that value is truthy,
  and of the requested budget when the price is absent or falsy (\<open>0\<close>, \<open>""\<close>, \<open>null\<close>,
  \<open>false\<close>).
\<close>

theorem recommendation_price:
  assumes "groq_create env (recommendations_request env age budget profileAnalysis) = Inr response"
    and "reply_text response = Inr recommendationsText"
    and "JSON_parse env (clean_json (extract_json recommendationsText)) = Inr (Arr recs)"
    and "map_e (to_recommendation env budget) recs = Inr out"
    and "i < length recs"
  shows "fst (generateGiftRecommendations env age budget profileAnalysis) = out
         \<and> length out = length recs
         \<and> (\<exists>p t. get_prop (recs ! i) (js ''price'') = Inr p
                \<and> ToString env (if truthy p then p else Num budget) = Inr t
                \<and> price (out ! i) = parseFloat env (strip_currency t)
                \<and> strip_currency t = filter (\<lambda>c. c \<noteq> 0x24 \<and> c \<noteq> 0x2C) t)"
proof -
  have out: "fst (generateGiftRecommendations env age budget profileAnalysis) = out"
    using assms(1-4) by (rule try_recommendations_Inr)
  from map_e_nth [OF assms(4)] assms(5)
  have len: "length out = length recs" and r: "to_recommendation env budget (recs ! i) = Inr (out ! i)"
    by simp_all
  from to_recommendation_price [OF r] out len show ?thesis
    by (auto simp: or_else_def strip_currency_filter)
qed

theorem recommendation_price_witness:
  "JSON_parse (sample_env tea_reply) (clean_json (extract_json tea_reply)) = Inr (Arr [tea_rec])
   \<and> get_prop tea_rec (js ''price'') = Inr (Str (js ''$1,200''))
   \<and> price (fst (generateGiftRecommendations (sample_env tea_reply) (Nonzero 30) (Nonzero 50) []) ! 0)
       = parseFloat (sample_env tea_reply) (js ''1200'')
   \<and> parseFloat (sample_env tea_reply) (js ''1200'') = Nonzero 1200"
proof (intro conjI)
  show "JSON_parse (sample_env tea_reply) (clean_json (extract_json tea_reply)) = Inr (Arr [tea_rec])"
    by (rule ev_parse_tea)
  show "get_prop tea_rec (js ''price'') = Inr (Str (js ''$1,200''))"
    by (simp add: tea_rec_def js_def)
  show p: "parseFloat (sample_env tea_reply) (js ''1200'') = Nonzero 1200"
    by (simp add: sample_env_def sample_number_def js_def)
  have "fst (generateGiftRecommendations (sample_env tea_reply) (Nonzero 30) (Nonzero 50) []) ! 0
          = \<lparr> name = Str (js ''Tea & mug (blue)''), description = Str [], price = Nonzero 1200,
              match_reason = Str [],
              amazon_link = Some (js ''https://www.amazon.com/s?k=Tea%20%26%20mug%20(blue)''),
              etsy_link = Some (js ''https://www.etsy.com/search?q=Tea%20%26%20mug%20(blue)'') \<rparr>"
    using recommendation_price [where i = 0 and age = "Nonzero 30" and profileAnalysis = "[]",
        OF sample_groq ev_text_tea ev_parse_tea ev_map_tea]
    by simp
  with p show "price (fst (generateGiftRecommendations (sample_env tea_reply) (Nonzero 30) (Nonzero 50) []) ! 0)
       = parseFloat (sample_env tea_reply) (js ''1200'')"
    by simp
qed

text \<open>
  The claim as stated fails where the model gives the price \<open>0\<close>: the stripped text of the
  model's price is \<open>0\<close>, which parses to \<open>0\<close>, but the recommendation is priced at the
  budget, 50.
\<close>

theorem recommendation_price_counterexample:
  "JSON_parse (sample_env zero_reply) (clean_json (extract_json zero_reply)) = Inr (Arr [zero_rec])
   \<and> get_prop zero_rec (js ''price'') = Inr (Num PosZero)
   \<and> ToString (sample_env zero_reply) (Num PosZero) = Inr (js ''0'')
   \<and> parseFloat (sample_env zero_reply) (strip_currency (js ''0'')) = PosZero
   \<and> price (hd (fst (generateGiftRecommendations (sample_env zero_reply) (Nonzero 30) (Nonzero 50) [])))
       = Nonzero 50
   \<and> price (hd (fst (generateGiftRecommendations (sample_env zero_reply) (Nonzero 30) (Nonzero 50) [])))
       \<noteq> parseFloat (sample_env zero_reply) (strip_currency (js ''0''))"
  by (simp add: ev_parse_zero ev_gen_zero)
     (simp add: zero_rec_def js_def num_str_def strip_currency_filter sample_env_def sample_number_def)

text \<open>
  Claim C6, as amended. For every recommendation produced from a parsed element whose
  \<open>name\<close> is a non-empty string, the name field is that string and the Amazon and Etsy
  URLs are the fixed prefixes followed by \<open>encodeURIComponent\<close> of the name: the result
  consists of unreserved code units and \<open>%\<close> escapes only, and for a name without
  surrogates every code unit that is not unreserved is replaced by the \<open>%XX\<close> escapes of
  its UTF-8 bytes. For an element whose \<open>name\<close> is absent or falsy, the name field is
  \<open>Gift suggestion\<close> while both URLs embed the empty string.
\<close>

theorem recommendation_links:
  assumes "groq_create env (recommendations_request env age budget profileAnalysis) = Inr response"
    and "reply_text response = Inr recommendationsText"
    and "JSON_parse env (clean_json (extract_json recommendationsText)) = Inr (Arr recs)"
    and "map_e (to_recommendation env budget) recs = Inr out"
    and "i < length recs"
    and "get_prop (recs ! i) (js ''name'') = Inr n"
  shows "fst (generateGiftRecommendations env age budget profileAnalysis) = out
         \<and> (\<forall>s. n = Str s \<and> s \<noteq> [] \<longrightarrow>
               name (out ! i) = Str s
               \<and> (\<exists>e. encodeURIComponent s = Inr e
                      \<and> amazon_link (out ! i) = Some (amazon_prefix @ e)
                      \<and> etsy_link (out ! i) = Some (etsy_prefix @ e)
                      \<and> (wf_string s \<longrightarrow> (\<forall>c\<in>set e. unreserved c \<or> c = 0x25))
                      \<and> ((\<forall>c\<in>set s. \<not> lead_surrogate c \<and> \<not> trail_surrogate c) \<longrightarrow>
                            e = concat (map (\<lambda>c. if unreserved c then [c] else pct_utf8 c) s))))
         \<and> (\<not> truthy n \<longrightarrow>
               name (out ! i) = Str (js ''Gift suggestion'')
               \<and> amazon_link (out ! i) = Some amazon_prefix
               \<and> etsy_link (out ! i) = Some etsy_prefix)"
proof -
  have out: "fst (generateGiftRecommendations env age budget profileAnalysis) = out"
    using assms(1-4) by (rule try_recommendations_Inr)
  from map_e_nth [OF assms(4)] assms(5)
  have r: "to_recommendation env budget (recs ! i) = Inr (out ! i)"
    by simp
  from to_recommendation_name [OF r] assms(6)
  obtain t e where t: "ToString env (or_else n (Str [])) = Inr t"
    and e: "encodeURIComponent t = Inr e"
    and nm: "name (out ! i) = or_else n (Str (js ''Gift suggestion''))"
    and am: "amazon_link (out ! i) = Some (amazon_prefix @ e)"
    and et: "etsy_link (out ! i) = Some (etsy_prefix @ e)"
    by auto
  have A: "name (out ! i) = Str s
           \<and> (\<exists>e. encodeURIComponent s = Inr e
                  \<and> amazon_link (out ! i) = Some (amazon_prefix @ e)
                  \<and> etsy_link (out ! i) = Some (etsy_prefix @ e)
                  \<and> (wf_string s \<longrightarrow> (\<forall>c\<in>set e. unreserved c \<or> c = 0x25))
                  \<and> ((\<forall>c\<in>set s. \<not> lead_surrogate c \<and> \<not> trail_surrogate c) \<longrightarrow>
                        e = concat (map (\<lambda>c. if unreserved c then [c] else pct_utf8 c) s)))"
    if "n = Str s" "s \<noteq> []" for s
  proof -
    from that t have ts: "t = s" by (simp add: or_else_def)
    from e ts have es: "encodeURIComponent s = Inr e" by simp
    have chars: "wf_string s \<longrightarrow> (\<forall>c\<in>set e. unreserved c \<or> c = 0x25)"
      using encode_chars [OF es] by blast
    have bmp: "(\<forall>c\<in>set s. \<not> lead_surrogate c \<and> \<not> trail_surrogate c) \<longrightarrow>
                 e = concat (map (\<lambda>c. if unreserved c then [c] else pct_utf8 c) s)"
      using encode_bmp [of s] es by auto
    from that nm have "name (out ! i) = Str s" by (simp add: or_else_def)
    with es am et chars bmp show ?thesis by blast
  qed
  have B: "name (out ! i) = Str (js ''Gift suggestion'')
           \<and> amazon_link (out ! i) = Some amazon_prefix \<and> etsy_link (out ! i) = Some etsy_prefix"
    if "\<not> truthy n"
  proof -
    from that t have "t = []" by (simp add: or_else_def)
    with e have "e = []" by simp
    with that nm am et show ?thesis by (simp add: or_else_def)
  qed
  from out A B show ?thesis by blast
qed

theorem recommendation_links_witness:
  "get_prop tea_rec (js ''name'') = Inr (Str (js ''Tea & mug (blue)''))
   \<and> wf_string (js ''Tea & mug (blue)'')
   \<and> amazon_link (fst (generateGiftRecommendations (sample_env tea_reply) (Nonzero 30) (Nonzero 50) []) ! 0)
       = Some (js ''https://www.amazon.com/s?k=Tea%20%26%20mug%20(blue)'')
   \<and> etsy_link (fst (generateGiftRecommendations (sample_env tea_reply) (Nonzero 30) (Nonzero 50) []) ! 0)
       = Some (js ''https://www.etsy.com/search?q=Tea%20%26%20mug%20(blue)'')
   \<and> get_prop noname_rec (js ''name'') = Inr Undefined
   \<and> \<not> truthy (Undefined :: int jsvalue)
   \<and> amazon_link (fst (generateGiftRecommendations (sample_env noname_reply) (Nonzero 30) (Nonzero 50) []) ! 0)
       = Some amazon_prefix"
proof -
  note tea = recommendation_links [where i = 0 and age = "Nonzero 30" and profileAnalysis = "[]"
        and n = "Str (js ''Tea & mug (blue)'')",
      OF sample_groq ev_text_tea ev_parse_tea ev_map_tea]
  note non = recommendation_links [where i = 0 and age = "Nonzero 30" and profileAnalysis = "[]"
        and n = Undefined,
      OF sample_groq ev_text_noname ev_parse_noname ev_map_noname]
  have wf: "wf_string (js ''Tea & mug (blue)'')"
    by (simp add: wf_string_def js_def)
  from tea ev_name_tea have "fst (generateGiftRecommendations (sample_env tea_reply) (Nonzero 30) (Nonzero 50) []) ! 0
      = \<lparr> name = Str (js ''Tea & mug (blue)''), description = Str [], price = Nonzero 1200,
            match_reason = Str [],
            amazon_link = Some (js ''https://www.amazon.com/s?k=Tea%20%26%20mug%20(blue)''),
            etsy_link = Some (js ''https://www.etsy.com/search?q=Tea%20%26%20mug%20(blue)'') \<rparr>"
    by simp
  moreover from non ev_name_noname have "amazon_link (fst (generateGiftRecommendations (sample_env noname_reply) (Nonzero 30) (Nonzero 50) []) ! 0)
       = Some amazon_prefix"
    by simp
  ultimately show ?thesis
    using wf ev_name_tea ev_name_noname by simp
qed

text \<open>
  The claim as stated fails for the recommendation name \<open>Gift suggestion\<close>, given to an
  element without a name: its percent-encoded form is \<open>Gift%20suggestion\<close>, and neither
  URL embeds it.
\<close>

theorem recommendation_links_counterexample:
  "name (hd (fst (generateGiftRecommendations (sample_env noname_reply) (Nonzero 30) (Nonzero 50) [])))
     = Str (js ''Gift suggestion'')
   \<and> encodeURIComponent (js ''Gift suggestion'') = Inr (js ''Gift%20suggestion'')
   \<and> amazon_link (hd (fst (generateGiftRecommendations (sample_env noname_reply) (Nonzero 30) (Nonzero 50) [])))
     = Some (js ''https://www.amazon.com/s?k='')
   \<and> amazon_link (hd (fst (generateGiftRecommendations (sample_env noname_reply) (Nonzero 30) (Nonzero 50) [])))
     \<noteq> Some (amazon_prefix @ js ''Gift%20suggestion'')
   \<and> etsy_link (hd (fst (generateGiftRecommendations (sample_env noname_reply) (Nonzero 30) (Nonzero 50) [])))
     \<noteq> Some (etsy_prefix @ js ''Gift%20suggestion'')"
  by (simp add: ev_gen_noname ev_encode_gift_suggestion) (simp add: js_def amazon_prefix_def etsy_prefix_def)

section \<open>Properties of the recommendation endpoint\<close>

lemma POST_recommend_400:
  assumes "\<not> num_truthy (Number_of_entry env (formData (js ''age'')))
           \<or> \<not> num_truthy (Number_of_entry env (formData (js ''budget'')))"
  shows "POST_recommend env (Inr formData)
           = (\<lparr> status = 400, body = RecommendError (js ''Missing required fields'') \<rparr>, [])"
  using assms by (auto simp: POST_recommend_def Let_def)

lemma POST_recommend_200:
  assumes "num_truthy (Number_of_entry env (formData (js ''age'')))"
    and "num_truthy (Number_of_entry env (formData (js ''budget'')))"
    and "image_analysis env (formData (js ''instagram-grid'')) = (Inr profileAnalysis, ev)"
  shows "fst (POST_recommend env (Inr formData)) =
           \<lparr> status = 200,
             body = Recommendations
                      (fst (generateGiftRecommendations env
                              (Number_of_entry env (formData (js ''age'')))
                              (Number_of_entry env (formData (js ''budget'')))
                              (if profileAnalysis = [] then js ''No profile analysis available.''
                               else profileAnalysis))) \<rparr>"
  using assms by (simp add: POST_recommend_def Let_def split: prod.split)

lemma Number_of_missing: "\<not> num_truthy (Number_of_entry env None)"
  by (simp add: Number_of_entry_def num_truthy_def)

text \<open>
  Claim C2. A request whose form has no \<open>age\<close> field or no \<open>budget\<close> field is answered
  with status 400 and an error object, and the handler has made no call: neither
  \<open>compressImage\<close>, nor \<open>analyzeImage\<close>, nor \<open>generateGiftRecommendations\<close>.
\<close>

theorem POST_recommend_missing_field:
  assumes "formData (js ''age'') = None \<or> formData (js ''budget'') = None"
  shows "POST_recommend env (Inr formData)
           = (\<lparr> status = 400, body = RecommendError (js ''Missing required fields'') \<rparr>, [])"
  using assms Number_of_missing [of env] by (auto intro!: POST_recommend_400)

theorem POST_recommend_missing_field_witness:
  "form_no_age (js ''age'') = None
   \<and> POST_recommend (sample_env []) (Inr form_no_age)
       = (\<lparr> status = 400, body = RecommendError (js ''Missing required fields'') \<rparr>, [])"
proof -
  have h: "form_no_age (js ''age'') = None"
    by (simp add: form_no_age_def js_def)
  then have "form_no_age (js ''age'') = None \<or> form_no_age (js ''budget'') = None"
    by simp
  from POST_recommend_missing_field [OF this] h show ?thesis
    by simp
qed

text \<open>
  Claim C9. The check is on the truthiness of the converted numbers: when the \<open>age\<close> or the
  \<open>budget\<close> field is present with a text that \<open>Number\<close> converts to \<open>0\<close>, \<open>-0\<close> or
  \<open>NaN\<close>, the request is answered with status 400 and no call is made, exactly as the same
  request without that field.
\<close>

theorem POST_recommend_falsy_field:
  assumes "field = js ''age'' \<or> field = js ''budget''"
    and "formData field = Some (EntryString s)"
    and "StringToNumber env s \<in> {NaN, PosZero, NegZero}"
  shows "POST_recommend env (Inr formData)
           = (\<lparr> status = 400, body = RecommendError (js ''Missing required fields'') \<rparr>, [])
         \<and> POST_recommend env (Inr (formData(field := None))) = POST_recommend env (Inr formData)"
proof -
  have n: "\<not> num_truthy (Number_of_entry env (formData field))"
    using assms(2,3) by (auto simp: Number_of_entry_def num_truthy_def)
  have 1: "POST_recommend env (Inr formData)
           = (\<lparr> status = 400, body = RecommendError (js ''Missing required fields'') \<rparr>, [])"
    using assms(1) n by (auto intro!: POST_recommend_400)
  have "\<not> num_truthy (Number_of_entry env ((formData(field := None)) field))"
    using Number_of_missing [of env] by simp
  then have 2: "POST_recommend env (Inr (formData(field := None)))
           = (\<lparr> status = 400, body = RecommendError (js ''Missing required fields'') \<rparr>, [])"
    using assms(1) by (auto intro!: POST_recommend_400 simp del: fun_upd_apply)
  from 1 2 show ?thesis by (simp del: fun_upd_apply)
qed

theorem POST_recommend_falsy_field_witness:
  "form_zero_age (js ''age'') = Some (EntryString (js ''0''))
   \<and> StringToNumber (sample_env []) (js ''0'') = PosZero
   \<and> POST_recommend (sample_env []) (Inr form_zero_age)
       = (\<lparr> status = 400, body = RecommendError (js ''Missing required fields'') \<rparr>, [])
   \<and> form_text_budget (js ''budget'') = Some (EntryString (js ''cheap''))
   \<and> StringToNumber (sample_env []) (js ''cheap'') = NaN
   \<and> POST_recommend (sample_env []) (Inr form_text_budget)
       = (\<lparr> status = 400, body = RecommendError (js ''Missing required fields'') \<rparr>, [])"
proof -
  have a: "form_zero_age (js ''age'') = Some (EntryString (js ''0''))"
    by (simp add: form_zero_age_def)
  have z: "StringToNumber (sample_env []) (js ''0'') = PosZero"
    by (simp add: sample_env_def sample_number_def js_def)
  have b: "form_text_budget (js ''budget'') = Some (EntryString (js ''cheap''))"
    by (simp add: form_text_budget_def js_def)
  have n: "StringToNumber (sample_env []) (js ''cheap'') = NaN"
    by (simp add: sample_env_def sample_number_def js_def)
  from z have z': "StringToNumber (sample_env []) (js ''0'') \<in> {NaN, PosZero, NegZero}" by simp
  from n have n': "StringToNumber (sample_env []) (js ''cheap'') \<in> {NaN, PosZero, NegZero}" by simp
  from POST_recommend_falsy_field [where field = "js ''age''" and formData = form_zero_age, OF _ a z']
    POST_recommend_falsy_field [where field = "js ''budget''" and formData = form_text_budget, OF _ b n']
    a z b n
  show ?thesis by simp
qed

section \<open>Properties of the scrape endpoint\<close>

lemma set_fold_set_add: "set (fold set_add xs acc) = set acc \<union> set xs"
  by (induction xs arbitrary: acc) (auto simp: set_add_def)

lemma set_fold_tag_interest:
  "set (fold (\<lambda>tag. set_add (tag_interest env tag)) tags acc) = set acc \<union> tag_interest env ` set tags"
  by (induction tags arbitrary: acc) (auto simp: set_add_def)

lemma set_add_hashtags:
  "set (add_hashtags env ps acc) =
     set acc \<union> {tag_interest env t | p tags t. p \<in> set ps \<and> hashtags p = Some tags \<and> t \<in> set tags}"
  unfolding add_hashtags_def
proof (induction ps arbitrary: acc)
  case Nil
  then show ?case by simp
next
  case (Cons p ps)
  show ?case
    by (cases "hashtags p") (auto simp: Cons.IH set_fold_tag_interest)
qed

lemma length_extract_keywords: "w \<in> set (extract_keywords env t) \<Longrightarrow> 3 < length w"
  by (simp add: extract_keywords_def)

lemma set_add_caption_keywords:
  "set (add_caption_keywords env ps acc) =
     set acc \<union> {w. \<exists>p c. p \<in> set ps \<and> caption p = Some c \<and> w \<in> set (extract_keywords env c)}"
  unfolding add_caption_keywords_def
proof (induction ps arbitrary: acc)
  case Nil
  then show ?case by simp
next
  case (Cons p ps)
  show ?case
    by (cases "caption p") (auto simp: Cons.IH set_fold_set_add)
qed

lemma set_add_bio_keywords:
  "set (add_bio_keywords env b acc) =
     set acc \<union> (case b of None \<Rightarrow> {} | Some t \<Rightarrow> set (extract_keywords env t))"
  by (cases b) (simp_all add: add_bio_keywords_def set_fold_set_add)

lemma toLowerCase_ascii:
  assumes "\<forall>c\<in>set s. c < 0x80"
  shows "toLowerCase env s = map ascii_lower s"
proof -
  have "map (\<lambda>i. if s ! i < 0x80 then [ascii_lower (s ! i)] else unicode_lower env s i) [0..<length s]
        = map (\<lambda>i. [ascii_lower (s ! i)]) [0..<length s]"
    using assms by (intro map_cong) auto
  also have "\<dots> = map (\<lambda>c. [ascii_lower c]) (map (nth s) [0..<length s])"
    by simp
  also have "\<dots> = map (\<lambda>c. [ascii_lower c]) s"
    by (simp only: map_nth)
  finally show ?thesis
    by (simp add: toLowerCase_def)
qed

lemma match_all_tag_skip:
  "p \<notin> set pre \<Longrightarrow> match_all (m_tag p) (pre @ s) = match_all (m_tag p) s"
  by (induction pre) (simp_all add: m_tag_def)

lemma match_all_tag_none: "p \<notin> set s \<Longrightarrow> match_all (m_tag p) s = []"
  by (induction s) (simp_all add: m_tag_def)

lemma takeWhile_fun:
  "suf = [] \<or> \<not> is_word (hd suf) \<Longrightarrow> takeWhile is_word (js ''fun'' @ suf) = js ''fun''"
  by (cases suf) (auto simp: js_def is_word_def)

lemma match_all_gift_fun:
  assumes "0x23 \<notin> set suf" and "suf = [] \<or> \<not> is_word (hd suf)"
  shows "match_all (m_tag 0x23) (js ''#gift #fun'' @ suf) = [js ''#gift'', js ''#fun'']"
proof -
  have 1: "match_all (m_tag 0x23) (js ''#gift #fun'' @ suf)
           = js ''#gift'' # match_all (m_tag 0x23) (js ''#fun'' @ suf)"
    by (simp add: js_def m_tag_def is_word_def)
  have 2: "match_all (m_tag 0x23) (js ''#fun'' @ suf) = js ''#fun'' # match_all (m_tag 0x23) suf"
    using takeWhile_fun [OF assms(2)] by (simp add: js_def m_tag_def)
  from 1 2 match_all_tag_none [OF assms(1)] show ?thesis by simp
qed

lemma hashtags_postData:
  "hashtags (postData env pg)
     = Some (match_all (m_tag 0x23) (case h1_textContent pg of None \<Rightarrow> [] | Some t \<Rightarrow> t))"
  by (simp add: postData_def Let_def)

lemma ev_tag_gift: "tag_interest env (js ''#gift'') = js ''gift''"
  by (simp add: tag_interest_def js_def toLowerCase_ascii ascii_lower_def)

lemma ev_tag_fun: "tag_interest env (js ''#fun'') = js ''fun''"
  by (simp add: tag_interest_def js_def toLowerCase_ascii ascii_lower_def)

lemma POST_scrape_result:
  assumes "POST_scrape env request = (resp, ev)"
    and "body resp = ScrapeResult profileData interests analysis"
  shows "interests = extract_interests env profileData"
  using assms
  by (auto simp: POST_scrape_def Let_def split: sum.splits if_splits prod.splits option.splits)

lemma tag_in_interests:
  assumes "p \<in> set (posts profileData)" and "hashtags p = Some tags" and "tag \<in> set tags"
  shows "tag_interest env tag \<in> set (extract_interests env profileData)"
  using assms
  by (auto simp: extract_interests_def set_add_bio_keywords set_add_caption_keywords set_add_hashtags)

lemma match_all_take:
  "t \<in> set (match_all m s) \<Longrightarrow> \<exists>u n. m u = Some n \<and> t = take n u"
proof (induction m s rule: match_all.induct)
  case (1 m)
  then show ?case by simp
next
  case (2 m c cs)
  show ?case
  proof (cases "m (c # cs)")
    case None
    with 2 show ?thesis by simp
  next
    case (Some n)
    with "2.prems" have "t = take n (c # cs) \<or> t \<in> set (match_all m (drop (n - 1) cs))"
      by simp
    then show ?thesis
    proof
      assume "t = take n (c # cs)"
      with Some show ?thesis by blast
    next
      assume "t \<in> set (match_all m (drop (n - 1) cs))"
      with "2.IH"(2) [OF Some] show ?thesis by simp
    qed
  qed
qed

lemma match_all_tag_ascii:
  assumes "t \<in> set (match_all (m_tag p) s)" and "c \<in> set (drop 1 t)"
  shows "c < 0x80"
proof -
  from match_all_take [OF assms(1)] obtain u n where u: "m_tag p u = Some n" and t: "t = take n u"
    by blast
  from u obtain a cs where "u = a # cs" and "n = 1 + length (takeWhile is_word cs)"
    by (cases u) (auto simp: m_tag_def split: if_splits)
  with t have "drop 1 t = takeWhile is_word cs"
    by (simp add: takeWhile_eq_take [symmetric])
  with assms(2) have "is_word c"
    by (auto dest: set_takeWhileD)
  then show ?thesis
    by (auto simp: is_word_def)
qed

lemma visit_posts_postData:
  "visit_posts env n urls = (Inr ps, ev) \<Longrightarrow> p \<in> set ps \<Longrightarrow> \<exists>pg. p = postData env pg"
proof (induction urls arbitrary: n ps ev)
  case Nil
  then show ?case by simp
next
  case (Cons url urls)
  then show ?case
    by (auto split: sum.splits prod.splits)
qed

lemma scrape_postData:
  assumes "scrapeInstagramProfile env u = (Some profileData, ev)" and "p \<in> set (posts profileData)"
  shows "\<exists>pg. p = postData env pg"
  using assms
  by (auto simp: scrapeInstagramProfile_def Let_def
           split: option.splits sum.splits if_splits prod.splits dest: visit_posts_postData)

lemma POST_scrape_profile:
  assumes "POST_scrape env request = (resp, ev)"
    and "body resp = ScrapeResult profileData interests analysis"
  shows "\<exists>u ev'. scrapeInstagramProfile env u = (Some profileData, ev')"
  using assms
  by (auto simp: POST_scrape_def Let_def split: sum.splits if_splits prod.splits option.splits)
     blast

lemma tag_interest_ascii:
  assumes "\<forall>c\<in>set (drop 1 tag). c < 0x80"
  shows "tag_interest env tag
           = map (\<lambda>c. if 0x41 \<le> c \<and> c \<le> 0x5A then c + 0x20 else c) (drop 1 tag)"
  using toLowerCase_ascii [OF assms, of env] by (simp add: tag_interest_def ascii_lower_def)

subsection \<open>Evaluation of the sample profile\<close>

lemma ev_postData: "postData (sample_env r) sample_post_page = sample_post"
  by (simp add: postData_def sample_post_page_def sample_post_def sample_env_def sample_number_def
      js_def m_tag_def is_word_def)

lemma ev_goto_profile:
  "page_goto (sample_env r) n (js ''https://www.instagram.com/'' @ js ''alice'' @ js ''/'') =
     Inr \<lparr> article_a_hrefs = [sample_post_url], h1_textContent = None,
           article_img_src = None, section_span_textContent = None,
           bio_span_textContent = Some (js ''Tea and coffee fan'') \<rparr>"
  by (simp add: sample_env_def sample_page_goto_def sample_profile_url_def js_def)

lemma ev_goto_post: "page_goto (sample_env r) n sample_post_url = Inr sample_post_page"
  by (simp add: sample_env_def sample_page_goto_def sample_profile_url_def sample_post_url_def
      sample_post_page_def js_def)

lemma ev_launch: "puppeteer_launch (sample_env r) = None"
  by (simp add: sample_env_def)

lemma ev_scrape:
  "scrapeInstagramProfile (sample_env r) (Str (js ''alice'')) =
     (Some sample_profile,
      [ScrapeInstagramProfile, BrowserLaunch, PageGoto sample_profile_url, WaitForSelector,
       PageGoto sample_post_url, PageGoto sample_profile_url, BrowserClose])"
  by (simp add: scrapeInstagramProfile_def ev_launch ev_goto_profile ev_goto_post ev_postData
      sample_profile_def)
     (simp add: sample_profile_url_def js_def Let_def)

lemma ev_keywords_caption:
  "extract_keywords (sample_env r) (js ''Day off! #gift #fun'') = [js ''gift'']"
  by (simp add: extract_keywords_def js_def toLowerCase_ascii ascii_lower_def is_word_def)

lemma ev_keywords_bio:
  "extract_keywords (sample_env r) (js ''Tea and coffee fan'') = [js ''coffee'']"
  by (simp add: extract_keywords_def js_def toLowerCase_ascii ascii_lower_def is_word_def)

lemma ev_interests:
  "extract_interests (sample_env r) sample_profile = [js ''gift'', js ''fun'', js ''coffee'']"
  by (simp add: extract_interests_def sample_profile_def sample_post_def add_hashtags_def
      add_caption_keywords_def add_bio_keywords_def ev_keywords_caption ev_keywords_bio
      ev_tag_gift ev_tag_fun set_add_def)
     (simp add: js_def)

lemma ev_analyzeProfile:
  "analyzeProfile (sample_env r) p = (r, [AnalyzeProfile, GroqCreate])"
  by (simp add: analyzeProfile_def sample_env_def first_content_or_empty_def)

lemma ev_POST_scrape:
  "POST_scrape (sample_env r) sample_scrape_request =
     (\<lparr> status = 200,
        body = ScrapeResult sample_profile [js ''gift'', js ''fun'', js ''coffee''] r \<rparr>,
      [ScrapeInstagramProfile, BrowserLaunch, PageGoto sample_profile_url, WaitForSelector,
       PageGoto sample_post_url, PageGoto sample_profile_url, BrowserClose,
       AnalyzeProfile, GroqCreate])"
proof -
  have u: "get_prop (Obj [(js ''username'', Str (js ''alice''))]) (js ''username'') = Inr (Str (js ''alice''))"
    by simp
  have t: "truthy (Str (js ''alice'') :: int jsvalue)"
    by (simp add: js_def)
  show ?thesis
    unfolding POST_scrape_def sample_scrape_request_def
    by (simp add: u t ev_scrape ev_analyzeProfile ev_interests bind_e_def del: get_prop.simps truthy.simps)
qed

lemma ev_upper_postData: "postData (sample_env r) upper_post_page = upper_post"
  by (simp add: postData_def upper_post_page_def upper_post_def sample_env_def sample_number_def
      js_def m_tag_def is_word_def)

lemma ev_goto_upper_profile:
  "page_goto (sample_env r) n (js ''https://www.instagram.com/'' @ js ''bob'' @ js ''/'')
     = Inr upper_profile_page"
  by (simp add: sample_env_def sample_page_goto_def sample_profile_url_def sample_post_url_def
      upper_profile_url_def js_def)

lemma ev_goto_upper_post: "page_goto (sample_env r) n upper_post_url = Inr upper_post_page"
  by (simp add: sample_env_def sample_page_goto_def sample_profile_url_def sample_post_url_def
      upper_profile_url_def upper_post_url_def js_def)

lemma ev_upper_scrape:
  "scrapeInstagramProfile (sample_env r) (Str (js ''bob'')) =
     (Some upper_profile,
      [ScrapeInstagramProfile, BrowserLaunch, PageGoto upper_profile_url, WaitForSelector,
       PageGoto upper_post_url, PageGoto upper_profile_url, BrowserClose])"
  by (simp add: scrapeInstagramProfile_def ev_launch ev_goto_upper_profile ev_goto_upper_post
      ev_upper_postData upper_profile_def upper_profile_page_def)
     (simp add: upper_profile_url_def js_def Let_def)

lemma ev_tag_upper: "tag_interest env (js ''#FUN'') = js ''fun''"
  by (simp add: tag_interest_def js_def toLowerCase_ascii ascii_lower_def)

lemma ev_keywords_upper: "extract_keywords (sample_env r) (js ''Go #FUN'') = []"
  by (simp add: extract_keywords_def js_def toLowerCase_ascii ascii_lower_def is_word_def)

lemma ev_keywords_empty: "extract_keywords (sample_env r) [] = []"
  by (simp add: extract_keywords_def toLowerCase_def)

lemma ev_upper_interests: "extract_interests (sample_env r) upper_profile = [js ''fun'']"
  by (simp add: extract_interests_def upper_profile_def upper_post_def add_hashtags_def
      add_caption_keywords_def add_bio_keywords_def ev_keywords_upper ev_keywords_empty
      ev_tag_upper set_add_def)

lemma ev_upper_POST_scrape:
  "POST_scrape (sample_env r) upper_scrape_request =
     (\<lparr> status = 200, body = ScrapeResult upper_profile [js ''fun''] r \<rparr>,
      [ScrapeInstagramProfile, BrowserLaunch, PageGoto upper_profile_url, WaitForSelector,
       PageGoto upper_post_url, PageGoto upper_profile_url, BrowserClose,
       AnalyzeProfile, GroqCreate])"
proof -
  have u: "get_prop (Obj [(js ''username'', Str (js ''bob''))]) (js ''username'') = Inr (Str (js ''bob''))"
    by simp
  have t: "truthy (Str (js ''bob'') :: int jsvalue)"
    by (simp add: js_def)
  show ?thesis
    unfolding POST_scrape_def upper_scrape_request_def
    by (simp add: u t ev_upper_scrape ev_analyzeProfile ev_upper_interests bind_e_def
        del: get_prop.simps truthy.simps)
qed

subsection \<open>Hashtags, keywords and the username check\<close>

text \<open>
  Claim C4. For a post whose caption contains \<open>#gift #fun\<close> (as its only hashtags: the text
  around it has no \<open>#\<close>, and no word character continues \<open>#fun\<close>), the pattern match of
  the scraper yields the hashtags \<open>#gift\<close> and \<open>#fun\<close>, and adding them to the interests
  set, with the \<open>#\<close> sliced off and the tag lowercased, yields exactly the set
  \<open>{gift, fun}\<close>.
\<close>

theorem hashtags_gift_fun:
  assumes "h1_textContent pg = Some (pre @ js ''#gift #fun'' @ suf)"
    and "0x23 \<notin> set pre" and "0x23 \<notin> set suf"
    and "suf = [] \<or> \<not> is_word (hd suf)"
  shows "hashtags (postData env pg) = Some [js ''#gift'', js ''#fun'']
         \<and> add_hashtags env [postData env pg] [] = [js ''gift'', js ''fun'']
         \<and> set (add_hashtags env [postData env pg] []) = {js ''gift'', js ''fun''}"
proof -
  have h: "hashtags (postData env pg) = Some [js ''#gift'', js ''#fun'']"
    using assms by (simp add: hashtags_postData match_all_tag_skip match_all_gift_fun)
  have ne: "js ''fun'' \<noteq> js ''gift''"
    by (simp add: js_def)
  from h have "add_hashtags env [postData env pg] [] = [js ''gift'', js ''fun'']"
    using ne by (simp add: add_hashtags_def set_add_def ev_tag_gift ev_tag_fun)
  with h show ?thesis by simp
qed

theorem hashtags_gift_fun_witness:
  "h1_textContent sample_post_page = Some (js ''Day off! '' @ js ''#gift #fun'' @ [])
   \<and> 0x23 \<notin> set (js ''Day off! '')
   \<and> hashtags (postData (sample_env []) sample_post_page) = Some [js ''#gift'', js ''#fun'']
   \<and> set (add_hashtags (sample_env []) [postData (sample_env []) sample_post_page] [])
       = {js ''gift'', js ''fun''}"
proof -
  have a: "h1_textContent sample_post_page = Some (js ''Day off! '' @ js ''#gift #fun'' @ [])"
    by (simp add: sample_post_page_def js_def)
  have b: "0x23 \<notin> set (js ''Day off! '')"
    by (simp add: js_def)
  have c: "0x23 \<notin> set ([] :: jsstring)"
    by simp
  have d: "([] :: jsstring) = [] \<or> \<not> is_word (hd [])"
    by simp
  from hashtags_gift_fun [OF a b c d, of "sample_env []"] a b show ?thesis
    by simp
qed

text \<open>
  Claim C5. For every caption and every bio text, the keyword extraction yields no word of
  length 3 or less: every extracted keyword, and so every word that the caption step or the
  bio step adds to the interests set, has more than 3 code units. In the returned interests
  only hashtag-derived entries can be shorter.
\<close>

theorem keywords_longer_than_3:
  "(\<forall>w\<in>set (extract_keywords env t). 3 < length w)
   \<and> (\<forall>w\<in>set (add_caption_keywords env ps interests). w \<in> set interests \<or> 3 < length w)
   \<and> (\<forall>w\<in>set (add_bio_keywords env b interests). w \<in> set interests \<or> 3 < length w)
   \<and> (\<forall>w\<in>set (extract_interests env profileData).
          w \<in> set (add_hashtags env (posts profileData) []) \<or> 3 < length w)"
proof (intro conjI ballI)
  fix w assume "w \<in> set (extract_keywords env t)"
  then show "3 < length w" by (rule length_extract_keywords)
next
  fix w assume "w \<in> set (add_caption_keywords env ps interests)"
  then show "w \<in> set interests \<or> 3 < length w"
    by (auto simp: set_add_caption_keywords dest: length_extract_keywords)
next
  fix w assume "w \<in> set (add_bio_keywords env b interests)"
  then show "w \<in> set interests \<or> 3 < length w"
    by (auto simp: set_add_bio_keywords split: option.splits dest: length_extract_keywords)
next
  fix w assume "w \<in> set (extract_interests env profileData)"
  then show "w \<in> set (add_hashtags env (posts profileData) []) \<or> 3 < length w"
    by (auto simp: extract_interests_def set_add_bio_keywords set_add_caption_keywords
             split: option.splits dest: length_extract_keywords)
qed

theorem keywords_longer_than_3_witness:
  "extract_keywords (sample_env []) (js ''Tea and coffee fan'') = [js ''coffee'']
   \<and> 3 < length (js ''coffee'')
   \<and> extract_interests (sample_env []) sample_profile = [js ''gift'', js ''fun'', js ''coffee'']
   \<and> add_hashtags (sample_env []) (posts sample_profile) [] = [js ''gift'', js ''fun'']
   \<and> 3 < length (js ''coffee'')"
proof -
  note k = keywords_longer_than_3 [where env = "sample_env []" and t = "js ''Tea and coffee fan''"
      and profileData = sample_profile and ps = "[]" and b = None and interests = "[]"]
  have h: "add_hashtags (sample_env []) (posts sample_profile) [] = [js ''gift'', js ''fun'']"
    by (simp add: add_hashtags_def sample_profile_def sample_post_def set_add_def ev_tag_gift ev_tag_fun)
       (simp add: js_def)
  from k have "3 < length (js ''coffee'')"
    by (simp add: ev_keywords_bio)
  with h show ?thesis
    by (simp add: ev_keywords_bio ev_interests)
qed

text \<open>
  Claim C10. Hashtags are added to the interests set with no length filter: whenever the
  scrape endpoint answers with a profile, every hashtag of every post contributes its tag
  to the returned interests, whatever its length, as the text behind the \<open>#\<close> with every
  letter \<open>A\<close>-\<open>Z\<close> replaced by its lower-case letter. The caption \<open>Go #FUN\<close> gives the
  interest \<open>fun\<close>, of length 3, although the keyword extraction of the same caption drops
  the word.
\<close>

theorem hashtag_interests_unfiltered:
  assumes "POST_scrape env request = (resp, ev)"
    and "body resp = ScrapeResult profileData interests analysis"
    and "p \<in> set (posts profileData)"
    and "hashtags p = Some tags"
    and "tag \<in> set tags"
  shows "map (\<lambda>c. if 0x41 \<le> c \<and> c \<le> 0x5A then c + 0x20 else c) (drop 1 tag) \<in> set interests
         \<and> tag_interest env tag
             = map (\<lambda>c. if 0x41 \<le> c \<and> c \<le> 0x5A then c + 0x20 else c) (drop 1 tag)"
proof -
  from POST_scrape_profile [OF assms(1,2)] obtain u ev'
    where "scrapeInstagramProfile env u = (Some profileData, ev')"
    by blast
  from scrape_postData [OF this assms(3)] obtain pg where "p = postData env pg"
    by blast
  with assms(4,5) have "tag \<in> set (match_all (m_tag 0x23)
                                  (case h1_textContent pg of None \<Rightarrow> [] | Some t \<Rightarrow> t))"
    by (simp add: hashtags_postData)
  then have "\<forall>c\<in>set (drop 1 tag). c < 0x80"
    by (blast dest: match_all_tag_ascii)
  then have low: "tag_interest env tag
             = map (\<lambda>c. if 0x41 \<le> c \<and> c \<le> 0x5A then c + 0x20 else c) (drop 1 tag)"
    by (rule tag_interest_ascii)
  from POST_scrape_result [OF assms(1,2)] tag_in_interests [OF assms(3-5)]
  have "tag_interest env tag \<in> set interests"
    by simp
  with low show ?thesis by simp
qed

theorem hashtag_interests_unfiltered_witness:
  "POST_scrape (sample_env (js ''Likes tea.'')) upper_scrape_request =
     (\<lparr> status = 200, body = ScrapeResult upper_profile [js ''fun''] (js ''Likes tea.'') \<rparr>,
      [ScrapeInstagramProfile, BrowserLaunch, PageGoto upper_profile_url, WaitForSelector,
       PageGoto upper_post_url, PageGoto upper_profile_url, BrowserClose,
       AnalyzeProfile, GroqCreate])
   \<and> upper_post \<in> set (posts upper_profile)
   \<and> hashtags upper_post = Some [js ''#FUN'']
   \<and> tag_interest (sample_env (js ''Likes tea.'')) (js ''#FUN'') = js ''fun''
   \<and> js ''fun'' \<in> set [js ''fun'']
   \<and> length (js ''fun'') \<le> 3
   \<and> extract_keywords (sample_env (js ''Likes tea.'')) (js ''Go #FUN'') = []
   \<and> POST_scrape (sample_env (js ''Likes tea.'')) sample_scrape_request =
     (\<lparr> status = 200,
        body = ScrapeResult sample_profile [js ''gift'', js ''fun'', js ''coffee''] (js ''Likes tea.'') \<rparr>,
      [ScrapeInstagramProfile, BrowserLaunch, PageGoto sample_profile_url, WaitForSelector,
       PageGoto sample_post_url, PageGoto sample_profile_url, BrowserClose,
       AnalyzeProfile, GroqCreate])
   \<and> js ''fun'' \<notin> set (extract_keywords (sample_env (js ''Likes tea.'')) (js ''Day off! #gift #fun''))"
proof -
  have p: "upper_post \<in> set (posts upper_profile)"
    by (simp add: upper_profile_def)
  have h: "hashtags upper_post = Some [js ''#FUN'']"
    by (simp add: upper_post_def)
  have b: "body \<lparr> status = 200, body = ScrapeResult upper_profile [js ''fun''] (js ''Likes tea.'') \<rparr>
      = ScrapeResult upper_profile [js ''fun''] (js ''Likes tea.'')"
    by simp
  have m: "js ''#FUN'' \<in> set [js ''#FUN'']"
    by simp
  have lower: "map (\<lambda>c. if 0x41 \<le> c \<and> c \<le> 0x5A then c + 0x20 else c) (drop 1 (js ''#FUN'')) = js ''fun''"
    by (simp add: js_def)
  note t = hashtag_interests_unfiltered [OF ev_upper_POST_scrape b p h m]
  from t lower have 1: "js ''fun'' \<in> set [js ''fun'']"
    and 2: "tag_interest (sample_env (js ''Likes tea.'')) (js ''#FUN'') = js ''fun''"
    by simp_all
  have 3: "length (js ''fun'') \<le> 3"
    by (simp add: js_def)
  have 4: "js ''fun'' \<notin> set (extract_keywords (sample_env (js ''Likes tea.'')) (js ''Day off! #gift #fun''))"
    by (simp add: ev_keywords_caption) (simp add: js_def)
  from 1 2 3 4 p h ev_upper_POST_scrape ev_POST_scrape ev_keywords_upper show ?thesis
    by blast
qed

lemma POST_scrape_null:
  "POST_scrape env (Inr Null)
     = (\<lparr> status = 500, body = ScrapeError (js ''Failed to fetch Instagram data'') \<rparr>, [])"
  by (simp add: POST_scrape_def)

text \<open>
  Claim C8, as amended. A request whose JSON body is not \<open>null\<close> and has no \<open>username\<close>,
  or an empty (or otherwise falsy) one, is answered with status 400 and an error object, and
  the handler has made no call: the scraper is not entered and no browser is launched. The
  body \<open>null\<close> cannot be destructured: the exception reaches the handler's \<open>catch\<close>, which
  answers with status 500, again without any call.
\<close>

theorem POST_scrape_missing_username:
  assumes "get_prop json (js ''username'') = Inr v"
    and "v = Undefined \<or> v = Str [] \<or> \<not> truthy v"
  shows "json \<noteq> Null
         \<and> POST_scrape env (Inr json)
             = (\<lparr> status = 400, body = ScrapeError (js ''Username is required'') \<rparr>, [])
         \<and> POST_scrape env (Inr Null)
             = (\<lparr> status = 500, body = ScrapeError (js ''Failed to fetch Instagram data'') \<rparr>, [])"
proof -
  from assms(1) have "json \<noteq> Null"
    by auto
  moreover from assms have "POST_scrape env (Inr json)
             = (\<lparr> status = 400, body = ScrapeError (js ''Username is required'') \<rparr>, [])"
    by (auto simp: POST_scrape_def)
  ultimately show ?thesis
    by (simp add: POST_scrape_null)
qed

theorem POST_scrape_missing_username_witness:
  "get_prop (Obj [] :: int jsvalue) (js ''username'') = Inr Undefined
   \<and> POST_scrape (sample_env []) (Inr (Obj []))
       = (\<lparr> status = 400, body = ScrapeError (js ''Username is required'') \<rparr>, [])
   \<and> get_prop (Obj [(js ''username'', Str [])] :: int jsvalue) (js ''username'') = Inr (Str [])
   \<and> POST_scrape (sample_env []) (Inr (Obj [(js ''username'', Str [])]))
       = (\<lparr> status = 400, body = ScrapeError (js ''Username is required'') \<rparr>, [])"
proof -
  have 1: "get_prop (Obj [] :: int jsvalue) (js ''username'') = Inr Undefined"
    by simp
  have 2: "get_prop (Obj [(js ''username'', Str [])] :: int jsvalue) (js ''username'') = Inr (Str [])"
    by simp
  from POST_scrape_missing_username [OF 1, of "sample_env []"]
    POST_scrape_missing_username [OF 2, of "sample_env []"] 1 2
  show ?thesis by simp
qed

text \<open>
  The claim as stated fails for the JSON body \<open>null\<close>, which has no \<open>username\<close>: the
  answer has status 500, not 400.
\<close>

theorem POST_scrape_missing_username_counterexample:
  "POST_scrape (sample_env []) (Inr Null)
     = (\<lparr> status = 500, body = ScrapeError (js ''Failed to fetch Instagram data'') \<rparr>, [])
   \<and> status (fst (POST_scrape (sample_env []) (Inr Null))) \<noteq> 400"
  by (simp add: POST_scrape_null)

end
